theory Spec2Isabelle
  imports Main
begin

section \<open>JavaScript values used by the agent\<close>

text \<open>
  The development embeds the deployment agent \<^verbatim>\<open>src/agent.js\<close> (class
  \<^verbatim>\<open>MarriageCounselorAgent\<close>). Strings are byte lists; an optional property of an
  object is an \<open>option\<close>, \<open>None\<close> standing for a property that is absent. Thrown
  exceptions are values of type \<open>error\<close>, returned on the left of a sum.
\<close>

datatype error = Error string | StoreFault string

text \<open>\<^verbatim>\<open>x || d\<close> on an optional string: absent and empty strings are falsy.\<close>

definition or_default :: "string option \<Rightarrow> string \<Rightarrow> string" where
  "or_default x d = (case x of None \<Rightarrow> d | Some s \<Rightarrow> if s = [] then d else s)"

text \<open>\<^verbatim>\<open>o?.p\<close>: optional chaining into an optional object.\<close>

definition opt_chain :: "'a option \<Rightarrow> ('a \<Rightarrow> 'b option) \<Rightarrow> 'b option" where
  "opt_chain obj prop = (case obj of None \<Rightarrow> None | Some x \<Rightarrow> prop x)"

text \<open>
  \<^verbatim>\<open>String.prototype.toUpperCase\<close> follows the Unicode case mappings, which this
  development does not embed: every function that calls it (\<^verbatim>\<open>invoke\<close>, \<^verbatim>\<open>setMode\<close>)
  takes the upper-casing of strings as its first parameter, named \<open>toUpperCase\<close>, and the
  general theorems hold for every such function. On ASCII text the method maps the
  letters a to z to A to Z and keeps every other character; \<open>toUpperCase_ascii\<close> is that
  mapping, and it stands for the method only in the concrete runs below, whose mode
  strings are ASCII.
\<close>

definition upper_char :: "char \<Rightarrow> char" where
  "upper_char c =
     (case map_of (zip ''abcdefghijklmnopqrstuvwxyz'' ''ABCDEFGHIJKLMNOPQRSTUVWXYZ'') c of
        Some C \<Rightarrow> C
      | None \<Rightarrow> c)"

definition toUpperCase_ascii :: "string \<Rightarrow> string" where
  "toUpperCase_ascii s = map upper_char s"

section \<open>Agent modes\<close>

text \<open>The constant object \<^verbatim>\<open>MODES\<close>, as its list of entries and as a lookup.\<close>

definition MODES_entries :: "(string \<times> string) list" where
  "MODES_entries =
     [(''USER'', ''my_point_of_view''),
      (''WIFE'', ''her_point_of_view''),
      (''SOLOMON'', ''king_solomon_wise'')]"

definition MODES :: "string \<rightharpoonup> string" where
  "MODES = map_of MODES_entries"

definition MODES_USER :: string where "MODES_USER = ''my_point_of_view''"
definition MODES_WIFE :: string where "MODES_WIFE = ''her_point_of_view''"
definition MODES_SOLOMON :: string where "MODES_SOLOMON = ''king_solomon_wise''"

section \<open>Configuration objects\<close>

record configurable =
  thread_id :: "string option"
  checkpoint_ns :: "string option"
  userId :: "string option"
  sessionId :: "string option"

record config =
  configurable :: "configurable option"

section \<open>The fact store\<close>

text \<open>
  The store object handed to the tools is an instance of the class \<^verbatim>\<open>InMemoryStore\<close> of
  the LangGraph checkpoint library, which is not part of the repository. A stored value
  is the object \<^verbatim>\<open>{ content: ... }\<close>; a read returns an item that wraps the value, or
  nothing. A store may refuse an operation (a fault, thrown to the caller): which
  operations fault is a field of the store.
\<close>

record story = content :: string

datatype item = Item (item_value: story)

datatype store_op = Put "string list" string story | Get "string list" string

record store =
  items :: "string list \<times> string \<rightharpoonup> item"
  fault :: "store_op \<Rightarrow> string option"

text \<open>
  Modelled from the spec: \<open>put(namespace, key, value)\<close> of the Fact Store contract, whose
  implementation is the library's. The newest value replaces the record under the
  namespace and key; a faulting call changes nothing.
\<close>

definition store_put :: "store \<Rightarrow> string list \<Rightarrow> string \<Rightarrow> story \<Rightarrow> error + store" where
  "store_put st ns key v =
     (case fault st (Put ns key v) of
        Some e \<Rightarrow> Inl (StoreFault e)
      | None \<Rightarrow> Inr (st\<lparr>items := (items st)((ns, key) \<mapsto> Item v)\<rparr>))"

text \<open>
  Modelled from the spec: \<open>get(namespace, key)\<close> of the Fact Store contract, whose
  implementation is the library's. It returns the record or nothing.
\<close>

definition store_get :: "store \<Rightarrow> string list \<Rightarrow> string \<Rightarrow> error + item option" where
  "store_get st ns key =
     (case fault st (Get ns key) of
        Some e \<Rightarrow> Inl (StoreFault e)
      | None \<Rightarrow> Inr (items st (ns, key)))"

text \<open>Modelled from the spec: the in-memory variant of the Fact Store, empty and never faulting.\<close>

definition InMemoryStore :: store where
  "InMemoryStore = \<lparr>items = Map.empty, fault = (\<lambda>_. None)\<rparr>"

section \<open>Tools\<close>

text \<open>
  A tool function receives its validated input and the run configuration, which carries
  the store. Its result records the returned text or the thrown error, the store after
  the call, and the store operations it issued, in order.
\<close>

record tool_input = story :: string

record tool_config = config +
  store :: "store option"

record tool_result =
  outcome :: "error + string"
  store_after :: "store option"
  ops :: "store_op list"

record tool =
  name :: string
  func :: "tool_input \<Rightarrow> tool_config \<Rightarrow> tool_result"

definition saveUserStory :: "tool_input \<Rightarrow> tool_config \<Rightarrow> tool_result" where
  "saveUserStory input cfg =
     (case tool_config.store cfg of
        None \<Rightarrow>
          \<lparr>outcome = Inl (Error ''store is required when compiling the graph''),
           store_after = None, ops = []\<rparr>
      | Some st \<Rightarrow>
          (let uid = or_default (opt_chain (configurable cfg) userId) ''default_user'';
               key = uid @ ''_user'';
               v = \<lparr>content = story input\<rparr>
           in case store_put st [''stories''] key v of
                Inl storeError \<Rightarrow>
                  \<lparr>outcome = Inl storeError, store_after = Some st,
                   ops = [Put [''stories''] key v]\<rparr>
              | Inr st' \<Rightarrow>
                  \<lparr>outcome =
                     Inr ''I understand your perspective. I'll remember this for any future counsel.'',
                   store_after = Some st', ops = [Put [''stories''] key v]\<rparr>))"

definition saveWifeStory :: "tool_input \<Rightarrow> tool_config \<Rightarrow> tool_result" where
  "saveWifeStory input cfg =
     (case tool_config.store cfg of
        None \<Rightarrow>
          \<lparr>outcome = Inl (Error ''store is required when compiling the graph''),
           store_after = None, ops = []\<rparr>
      | Some st \<Rightarrow>
          (let uid = or_default (opt_chain (configurable cfg) userId) ''default_user'';
               key = uid @ ''_wife'';
               v = \<lparr>content = story input\<rparr>
           in case store_put st [''stories''] key v of
                Inl storeError \<Rightarrow>
                  \<lparr>outcome = Inl storeError, store_after = Some st,
                   ops = [Put [''stories''] key v]\<rparr>
              | Inr st' \<Rightarrow>
                  \<lparr>outcome = Inr ''I understand her perspective on this situation.'',
                   store_after = Some st', ops = [Put [''stories''] key v]\<rparr>))"

text \<open>
  The three pictographs that open the lines of the combined report, as the bytes of the
  source text.
\<close>

definition scroll_mark :: string where
  "scroll_mark = [CHR 0xC3, CHR 0xB0, CHR 0xC5, CHR 0xB8, CHR 0xE2, CHR 0x80, CHR 0x9C, CHR 0xC5, CHR 0x93]"

definition user_mark :: string where
  "user_mark = [CHR 0xC3, CHR 0xB0, CHR 0xC5, CHR 0xB8, CHR 0xE2, CHR 0x80, CHR 0x98, CHR 0xC2, CHR 0xA4]"

definition wife_mark :: string where
  "wife_mark = [CHR 0xC3, CHR 0xB0, CHR 0xC5, CHR 0xB8, CHR 0xE2, CHR 0x80, CHR 0x98, CHR 0xC2, CHR 0xA9]"

text \<open>
  \<^verbatim>\<open>story?.value?.content\<close> used as a condition: the content when a record was
  returned and its content is a non-empty string.
\<close>

definition truthy_content :: "item option \<Rightarrow> string option" where
  "truthy_content it =
     (case it of
        None \<Rightarrow> None
      | Some i \<Rightarrow> if content (item_value i) = [] then None else Some (content (item_value i)))"

definition getBothStories :: "tool_input \<Rightarrow> tool_config \<Rightarrow> tool_result" where
  "getBothStories input cfg =
     (case tool_config.store cfg of
        None \<Rightarrow>
          \<lparr>outcome = Inl (Error ''store is required when compiling the graph''),
           store_after = None, ops = []\<rparr>
      | Some st \<Rightarrow>
          (let uid = or_default (opt_chain (configurable cfg) userId) ''default_user'';
               userStory = (case store_get st [''stories''] (uid @ ''_user'') of
                              Inl e \<Rightarrow> None | Inr it \<Rightarrow> it);
               wifeStory = (case store_get st [''stories''] (uid @ ''_wife'') of
                              Inl e \<Rightarrow> None | Inr it \<Rightarrow> it);
               result0 = scroll_mark @ '' BOTH PERSPECTIVES:\<newline>\<newline>'';
               result1 =
                 (case truthy_content userStory of
                    Some c \<Rightarrow> result0 @ user_mark @ '' **User's Grievance:** '' @ c @ ''\<newline>\<newline>''
                  | None \<Rightarrow>
                      result0 @ user_mark @ '' **User's Grievance:** No story shared yet\<newline>\<newline>'');
               result2 =
                 (case truthy_content wifeStory of
                    Some c \<Rightarrow> result1 @ wife_mark @ '' **Wife's Perspective:** '' @ c
                  | None \<Rightarrow> result1 @ wife_mark @ '' **Wife's Perspective:** No story shared yet'')
           in \<lparr>outcome = Inr result2, store_after = Some st,
               ops = [Get [''stories''] (uid @ ''_user''), Get [''stories''] (uid @ ''_wife'')]\<rparr>))"

definition createUserModeTools :: "tool list" where
  "createUserModeTools = [\<lparr>name = ''save_user_story'', func = saveUserStory\<rparr>]"

definition createWifeModeTools :: "tool list" where
  "createWifeModeTools = [\<lparr>name = ''save_wife_story'', func = saveWifeStory\<rparr>]"

definition createSolomonModeTools :: "tool list" where
  "createSolomonModeTools = [\<lparr>name = ''get_both_stories'', func = getBothStories\<rparr>]"

section \<open>The prompt function\<close>

datatype message = Message string string

record graph_state = messages :: "message list"

definition systemMessage_USER :: string where
  \<open>systemMessage_USER =
     ''You are a best friend who listens to the users stories and understands their perspective. You're the friend who always has their back and makes them feel heard and validated.\<newline>''
   @ ''\<newline>''
   @ ''CRITICAL: Whenever they share ANY relationship problems, complaints, or grievances about their wife/partner, you MUST call save_user_story to save those details for future counseling sessions. This includes ANY negative feelings, frustrations, or conflicts they mention.\<newline>''
   @ ''\<newline>''
   @ ''Your approach:\<newline>''
   @ ''- Listen and validate their feelings\<newline>''
   @ ''- IMMEDIATELY call save_user_story when they share any relationship issues\<newline>''
   @ ''- Ask follow-up questions to understand better  \<newline>''
   @ ''- Give supportive advice based on what they tell you in the conversation\<newline>''
   @ ''- Always save important grievances - this is essential for the counseling process''\<close>

definition systemMessage_WIFE :: string where
  \<open>systemMessage_WIFE =
     ''You are role-playing as the wife responding to grievances being aired about you. You don't know what specific complaints have been made, so ask them to tell you what they're upset about.\<newline>''
   @ ''\<newline>''
   @ ''CRITICAL: Whenever you give your perspective, explanation, or response to complaints, you MUST call save_wife_story to save your side of the story for future counseling sessions.\<newline>''
   @ ''\<newline>''
   @ ''Your approach:\<newline>''
   @ ''- Ask them to explain what they're upset about if needed\<newline>''
   @ ''- Respond authentically as the wife explaining your side\<newline>''
   @ ''- IMMEDIATELY call save_wife_story after giving your perspective\<newline>''
   @ ''- Be authentic - not neutral, but actually responding as someone defending themselves\<newline>''
   @ ''- Always save your explanations and justifications for future reference''\<close>

definition systemMessage_SOLOMON :: string where
  \<open>systemMessage_SOLOMON =
     ''You are King Solomon, the wise counselor who advises the user on where they went wrong and how to fix it. You must call get_both_stories to access both the user's grievances and the wife's responses before making recommendations.\<newline>''
   @ ''\<newline>''
   @ ''Your approach:\<newline>''
   @ ''- Review both sides objectively: "I can see that you feel... and she feels..."\<newline>''
   @ ''- Identify the real underlying issues beyond the surface complaints\<newline>''
   @ ''- Give specific, actionable recommendations for both parties\<newline>''
   @ ''- "Here's what I think you should try..." \<newline>''
   @ ''- "She probably needs..." and "You probably need..."\<newline>''
   @ ''- Suggest practical steps to improve the situation\<newline>''
   @ ''- Address both people's valid concerns\<newline>''
   @ ''- Speak with wisdom but in a relatable, helpful way\<newline>''
   @ ''\<newline>''
   @ ''You're the wise friend who sees the bigger picture and gives solid advice to help them actually work things out.''\<close>

definition systemMessages :: "string \<rightharpoonup> string" where
  "systemMessages =
     map_of [(MODES_USER, systemMessage_USER),
             (MODES_WIFE, systemMessage_WIFE),
             (MODES_SOLOMON, systemMessage_SOLOMON)]"

definition getPromptFunction :: "string \<Rightarrow> graph_state \<Rightarrow> config \<Rightarrow> message list" where
  "getPromptFunction mode state cfg =
     (let systemMessage = or_default (systemMessages mode) ''You are a helpful assistant.'';
          uid = or_default (opt_chain (configurable cfg) userId) ''default_user'';
          sid = or_default (opt_chain (configurable cfg) sessionId) ''default_session'';
          dynamicSystemMsg =
            systemMessage @ ''\<newline>\<newline>Session Info: You are in '' @ mode
              @ '' mode for user '' @ uid @ '' in session '' @ sid @ ''.''
      in Message ''system'' dynamicSystemMsg # messages state)"

section \<open>The external agent runtime\<close>

record agent =
  tools :: "tool list"
  prompt :: "graph_state \<Rightarrow> config \<Rightarrow> message list"

text \<open>
  The reasoning engine (\<^verbatim>\<open>createReactAgent\<close> of LangGraph) is not part of the repository.
  Following the invocation boundary of the spec, a turn is run with an instruction
  sequence, a tool set and a thread key. The tool calls that the language model decides
  to issue during the turn are a parameter: a list of tool names with inputs.
\<close>

type_synonym tool_call = "string \<times> tool_input"

text \<open>
  Modelled from the spec: the tool calls of one turn, whose implementation is the
  library's. A call is dispatched by name among the tools the agent was built with, with
  the run's configuration and the shared store; a name outside that set runs nothing.
\<close>

fun run_tools ::
  "tool list \<Rightarrow> configurable option \<Rightarrow> tool_call list \<Rightarrow> store \<Rightarrow> (string \<times> tool_result) list \<times> store"
where
  "run_tools ts cf [] st = ([], st)"
| "run_tools ts cf ((n, inp) # rest) st =
     (case find (\<lambda>t. name t = n) ts of
        None \<Rightarrow> run_tools ts cf rest st
      | Some t \<Rightarrow>
          (let r = func t inp \<lparr>configurable = cf, tool_config.store = Some st\<rparr>;
               st' = (case store_after r of Some s \<Rightarrow> s | None \<Rightarrow> st);
               (rs, st'') = run_tools ts cf rest st'
           in ((n, r) # rs, st'')))"

text \<open>
  Modelled from the spec: the history that the engine's checkpointer holds under a thread
  key.
\<close>

definition thread_history :: "(string \<rightharpoonup> message list) \<Rightarrow> string option \<Rightarrow> message list" where
  "thread_history ckpt thread =
     (case thread of
        None \<Rightarrow> []
      | Some k \<Rightarrow> (case ckpt k of None \<Rightarrow> [] | Some h \<Rightarrow> h))"

record turn =
  target :: string
  run_config :: config
  instruction :: "message list"
  calls :: "(string \<times> tool_result) list"

section \<open>The counselor\<close>

record env =
  OPENAI_API_KEY :: "string option"
  ANTHROPIC_API_KEY :: "string option"
  initChatModel_error :: "string option"

record counselor =
  currentMode :: string
  agents :: "string \<rightharpoonup> agent"
  checkpointer :: "string \<rightharpoonup> message list"
  store :: store
  initialized :: bool

text \<open>The constructor.\<close>

definition new_counselor :: counselor where
  "new_counselor =
     \<lparr>currentMode = MODES_SOLOMON, agents = Map.empty, checkpointer = Map.empty,
      counselor.store = InMemoryStore, initialized = False\<rparr>"

text \<open>
  \<^verbatim>\<open>initialize\<close>: the failure of the external model loader is the field
  \<open>initChatModel_error\<close> of the environment.
\<close>

definition initialize :: "env \<Rightarrow> counselor \<Rightarrow> error + counselor" where
  "initialize e c =
     (if initialized c then Inr c
      else if or_default (OPENAI_API_KEY e) [] = [] \<and> or_default (ANTHROPIC_API_KEY e) [] = []
      then Inl (Error ''Please set OPENAI_API_KEY or ANTHROPIC_API_KEY in your environment'')
      else case initChatModel_error e of
             Some msg \<Rightarrow> Inl (Error (''Failed to initialize agent: '' @ msg))
           | None \<Rightarrow>
               Inr (c\<lparr>agents :=
                        (agents c)
                          (MODES_USER \<mapsto>
                             \<lparr>tools = createUserModeTools, prompt = getPromptFunction MODES_USER\<rparr>,
                           MODES_WIFE \<mapsto>
                             \<lparr>tools = createWifeModeTools, prompt = getPromptFunction MODES_WIFE\<rparr>,
                           MODES_SOLOMON \<mapsto>
                             \<lparr>tools = createSolomonModeTools,
                              prompt = getPromptFunction MODES_SOLOMON\<rparr>),
                     initialized := True\<rparr>))"

record invoke_input =
  mode :: "string option"
  messages :: "message list option"
  input :: "string option"
  content :: "string option"

text \<open>The local constant \<^verbatim>\<open>defaultConfig.configurable\<close> of \<^verbatim>\<open>invoke\<close>.\<close>

definition defaultConfig :: "counselor \<Rightarrow> config \<Rightarrow> configurable" where
  "defaultConfig c cfg =
     \<lparr>thread_id =
        Some (currentMode c @ ''_'' @ or_default (opt_chain (configurable cfg) sessionId) ''default''),
      checkpoint_ns = Some [],
      userId = Some (or_default (opt_chain (configurable cfg) userId) ''default_user''),
      sessionId = Some (or_default (opt_chain (configurable cfg) sessionId) ''default_session'')\<rparr>"

text \<open>
  Object spread \<^verbatim>\<open>{...d, ...o}\<close>: every property present in the second object
  replaces the one of the first.
\<close>

definition over :: "'a option \<Rightarrow> 'a option \<Rightarrow> 'a option" where
  "over d x = (case x of None \<Rightarrow> d | Some v \<Rightarrow> Some v)"

definition spread :: "configurable \<Rightarrow> configurable option \<Rightarrow> configurable" where
  "spread d o2 =
     (case o2 of
        None \<Rightarrow> d
      | Some x \<Rightarrow>
          \<lparr>thread_id = over (thread_id d) (thread_id x),
           checkpoint_ns = over (checkpoint_ns d) (checkpoint_ns x),
           userId = over (userId d) (userId x),
           sessionId = over (sessionId d) (sessionId x)\<rparr>)"

definition mergedConfig :: "counselor \<Rightarrow> config \<Rightarrow> config" where
  "mergedConfig c cfg = \<lparr>configurable = Some (spread (defaultConfig c cfg) (configurable cfg))\<rparr>"

text \<open>
  The agent key chosen by \<^verbatim>\<open>invoke\<close>: the input's mode when its upper-casing names
  one, else the current mode.
\<close>

definition select_mode :: "(string \<Rightarrow> string) \<Rightarrow> counselor \<Rightarrow> invoke_input \<Rightarrow> string" where
  "select_mode toUpperCase c inp =
     (case invoke_input.mode inp of
        None \<Rightarrow> currentMode c
      | Some m \<Rightarrow>
          if m = [] then currentMode c
          else (case MODES (toUpperCase m) of
                  Some v \<Rightarrow> v
                | None \<Rightarrow> currentMode c))"

definition request_messages :: "invoke_input \<Rightarrow> message list" where
  "request_messages inp =
     (case invoke_input.messages inp of
        Some ms \<Rightarrow> ms
      | None \<Rightarrow>
          [Message ''user''
             (or_default (invoke_input.input inp) (or_default (invoke_input.content inp) []))])"

text \<open>
  Modelled from the spec: the engine's \<^verbatim>\<open>invoke\<close> of one agent, whose implementation is
  the library's. The history of the turn is what the checkpointer holds under the thread
  key followed by the new messages; the agent's prompt function composes the instruction
  from it; the planned tool calls run; the history is stored back under the thread key.
\<close>

definition agent_invoke ::
  "agent \<Rightarrow> string \<Rightarrow> message list \<Rightarrow> config \<Rightarrow> tool_call list \<Rightarrow> counselor \<Rightarrow> turn \<times> counselor"
where
  "agent_invoke ag key msgs cfg plan c =
     (let thread = opt_chain (configurable cfg) thread_id;
          history = thread_history (checkpointer c) thread @ msgs;
          (rs, st') = run_tools (tools ag) (configurable cfg) plan (counselor.store c)
      in (\<lparr>target = key, run_config = cfg,
           instruction = prompt ag \<lparr>graph_state.messages = history\<rparr> cfg,
           calls = rs\<rparr>,
          c\<lparr>checkpointer :=
               (case thread of
                  None \<Rightarrow> checkpointer c
                | Some k \<Rightarrow> (checkpointer c)(k \<mapsto> history)),
            counselor.store := st'\<rparr>))"

text \<open>
  \<^verbatim>\<open>invoke\<close>. The result is the thrown error or the record of the turn that the
  selected agent ran, with the counselor afterwards.
\<close>

definition invoke ::
  "(string \<Rightarrow> string) \<Rightarrow> invoke_input \<Rightarrow> config \<Rightarrow> env \<Rightarrow> tool_call list \<Rightarrow> counselor
     \<Rightarrow> (error + turn) \<times> counselor"
where
  "invoke toUpperCase inp cfg e plan c0 =
     (case initialize e c0 of
        Inl err \<Rightarrow> (Inl err, c0)
      | Inr c \<Rightarrow>
          (let merged = mergedConfig c cfg;
               m = select_mode toUpperCase c inp
           in case agents c m of
                None \<Rightarrow> (Inl (Error (''Agent not initialized for mode: '' @ m)), c)
              | Some ag \<Rightarrow>
                  (case agent_invoke ag m (request_messages inp) merged plan c of
                     (t, c') \<Rightarrow> (Inr t, c'))))"

definition setMode :: "(string \<Rightarrow> string) \<Rightarrow> string \<Rightarrow> counselor \<Rightarrow> bool \<times> counselor" where
  "setMode toUpperCase m c =
     (case MODES (toUpperCase m) of
        Some v \<Rightarrow> (True, c\<lparr>currentMode := v\<rparr>)
      | None \<Rightarrow> (False, c))"

section \<open>Runs of the system\<close>

text \<open>
  The counselors that a caller can hold: the constructed one, and every one obtained from
  it by \<^verbatim>\<open>setMode\<close>, \<^verbatim>\<open>initialize\<close> and \<^verbatim>\<open>invoke\<close> with arbitrary arguments,
  environments, tool-call plans and upper-casing functions.
\<close>

inductive reachable :: "counselor \<Rightarrow> bool" where
  fresh: "reachable new_counselor"
| after_setMode: "reachable c \<Longrightarrow> reachable (snd (setMode toUpperCase m c))"
| after_initialize: "reachable c \<Longrightarrow> initialize e c = Inr c' \<Longrightarrow> reachable c'"
| after_invoke: "reachable c \<Longrightarrow> reachable (snd (invoke toUpperCase inp cfg e plan c))"

text \<open>The agent table that \<^verbatim>\<open>initialize\<close> builds.\<close>

definition wired_agents :: "string \<rightharpoonup> agent" where
  "wired_agents =
     [MODES_USER \<mapsto> \<lparr>tools = createUserModeTools, prompt = getPromptFunction MODES_USER\<rparr>,
      MODES_WIFE \<mapsto> \<lparr>tools = createWifeModeTools, prompt = getPromptFunction MODES_WIFE\<rparr>,
      MODES_SOLOMON \<mapsto> \<lparr>tools = createSolomonModeTools, prompt = getPromptFunction MODES_SOLOMON\<rparr>]"

text \<open>The invariant of every reachable counselor.\<close>

definition well_formed :: "counselor \<Rightarrow> bool" where
  "well_formed c =
     (currentMode c \<in> {MODES_USER, MODES_WIFE, MODES_SOLOMON}
      \<and> (if initialized c then agents c = wired_agents else agents c = Map.empty))"

section \<open>Fixtures\<close>

text \<open>An environment with an API key whose model loads, and the configuration of the repository's test script.\<close>

definition test_env :: env where
  "test_env = \<lparr>OPENAI_API_KEY = Some ''key'', ANTHROPIC_API_KEY = None, initChatModel_error = None\<rparr>"

definition test_config :: config where
  "test_config =
     \<lparr>configurable =
        Some \<lparr>thread_id = None, checkpoint_ns = None,
              userId = Some ''test_user'', sessionId = Some ''test_session''\<rparr>\<rparr>"

text \<open>
  A turn of the advocate: a fresh counselor is invoked with mode \<open>USER\<close> and the model
  decides to record one grievance.
\<close>

definition advocate_input :: invoke_input where
  "advocate_input = \<lparr>mode = Some ''USER'', messages = None, input = Some ''She spends too much'', content = None\<rparr>"

definition advocate_plan :: "tool_call list" where
  "advocate_plan = [(''save_user_story'', \<lparr>story = ''She overspent on furniture''\<rparr>)]"

definition advocate_run :: "(error + turn) \<times> counselor" where
  "advocate_run = invoke toUpperCase_ascii advocate_input test_config test_env advocate_plan new_counselor"

definition advocate_call :: tool_result where
  "advocate_call =
     saveUserStory \<lparr>story = ''She overspent on furniture''\<rparr>
       \<lparr>configurable = configurable (mergedConfig new_counselor test_config),
        tool_config.store = Some InMemoryStore\<rparr>"

text \<open>
  The calls of the repository's test script: the mode is chosen by the input and
  \<^verbatim>\<open>setMode\<close> is never called. First a turn of the advocate, then a turn of the
  opposing role-play in the same session.
\<close>

definition api_input :: "string \<Rightarrow> string \<Rightarrow> invoke_input" where
  "api_input m txt = \<lparr>mode = Some m, messages = Some [Message ''user'' txt], input = None, content = None\<rparr>"

definition user_turn :: "(error + turn) \<times> counselor" where
  "user_turn = invoke toUpperCase_ascii (api_input ''USER'' ''She bought more stuff we do not need.'') test_config test_env [] new_counselor"

definition wife_turn :: "(error + turn) \<times> counselor" where
  "wife_turn = invoke toUpperCase_ascii (api_input ''WIFE'' ''I only buy things we need for the house.'') test_config test_env [] (snd user_turn)"

definition counselor_after_user_turn :: counselor where
  "counselor_after_user_turn =
     new_counselor
       \<lparr>agents := wired_agents,
        checkpointer :=
          [''king_solomon_wise_test_session'' \<mapsto>
             [Message ''user'' ''She bought more stuff we do not need.'']],
        initialized := True\<rparr>"

text \<open>
  The configuration of the deployment guide, which passes its own \<open>thread_id\<close>, and a
  turn invoked with it.
\<close>

definition deployment_config :: config where
  "deployment_config =
     \<lparr>configurable =
        Some \<lparr>thread_id = Some ''user123_session456'', checkpoint_ns = None,
              userId = Some ''user123'', sessionId = Some ''session456''\<rparr>\<rparr>"

definition pinned_turn :: "(error + turn) \<times> counselor" where
  "pinned_turn = invoke toUpperCase_ascii (api_input ''WIFE'' ''Continue our conversation'') deployment_config test_env [] new_counselor"

text \<open>A turn requested for a persona that does not exist, in which the model asks for both stories.\<close>

definition unknown_turn :: "(error + turn) \<times> counselor" where
  "unknown_turn =
     invoke toUpperCase_ascii (api_input ''unknown'' ''Who is right?'') test_config test_env
       [(''get_both_stories'', \<lparr>story = []\<rparr>)] new_counselor"

text \<open>A configuration without a session identifier, and a turn of the advocate invoked with it.\<close>

definition no_session_config :: config where
  "no_session_config =
     \<lparr>configurable =
        Some \<lparr>thread_id = None, checkpoint_ns = None, userId = Some ''u1'', sessionId = None\<rparr>\<rparr>"

definition no_session_turn :: "(error + turn) \<times> counselor" where
  "no_session_turn =
     invoke toUpperCase_ascii (api_input ''USER'' ''She spends too much'') no_session_config test_env
       [(''save_user_story'', \<lparr>story = ''She overspent on furniture''\<rparr>)] new_counselor"

text \<open>A configuration with no identity at all.\<close>

definition anonymous_config :: config where
  "anonymous_config = \<lparr>configurable = None\<rparr>"

definition anonymous_turn :: "(error + turn) \<times> counselor" where
  "anonymous_turn = invoke toUpperCase_ascii (api_input ''USER'' ''She spends too much'') anonymous_config test_env [] new_counselor"

text \<open>A store that is down: every operation faults.\<close>

definition unavailable_store :: store where
  "unavailable_store = \<lparr>items = Map.empty, fault = (\<lambda>op. Some ''store unavailable'')\<rparr>"

text \<open>
  A store that holds the wife's story and whose read of the user's story faults, every
  other operation succeeding.
\<close>

definition half_available_store :: store where
  "half_available_store =
     \<lparr>items =
        [([''stories''], ''u1_wife'') \<mapsto> Item \<lparr>story.content = ''I bought only what the house needed''\<rparr>],
      fault = (\<lambda>op. if op = Get [''stories''] ''u1_user'' then Some ''store unavailable'' else None)\<rparr>"

text \<open>The identity of the end-to-end scenarios.\<close>

definition u1_config :: "configurable option" where
  "u1_config =
     Some \<lparr>thread_id = None, checkpoint_ns = None, userId = Some ''u1'', sessionId = Some ''s1''\<rparr>"

text \<open>
  The layout of the text that \<^verbatim>\<open>get_both_stories\<close> returns, with what is printed for
  the user's side and for the wife's side as parameters.
\<close>

definition report :: "string \<Rightarrow> string \<Rightarrow> string" where
  "report user_side wife_side =
     scroll_mark @ '' BOTH PERSPECTIVES:\<newline>\<newline>''
       @ user_mark @ '' **User's Grievance:** '' @ user_side @ ''\<newline>\<newline>''
       @ wife_mark @ '' **Wife's Perspective:** '' @ wife_side"

text \<open>The in-memory store after the advocate recorded an empty text, and after both sides recorded a story.\<close>

definition store_with_empty_grievance :: store where
  "store_with_empty_grievance =
     InMemoryStore\<lparr>items := [([''stories''], ''u1_user'') \<mapsto> Item \<lparr>story.content = []\<rparr>]\<rparr>"

definition store_with_both_stories :: store where
  "store_with_both_stories =
     InMemoryStore
       \<lparr>items :=
          [([''stories''], ''u1_user'') \<mapsto> Item \<lparr>story.content = ''She overspent on furniture''\<rparr>,
           ([''stories''], ''u1_wife'') \<mapsto>
             Item \<lparr>story.content = ''I bought only what the house needed''\<rparr>]\<rparr>"

text \<open>The combined read on a store in which nothing was written, and a conversation history.\<close>

definition both_sides_absent_config :: tool_config where
  "both_sides_absent_config = \<lparr>configurable = u1_config, tool_config.store = Some InMemoryStore\<rparr>"

definition history_fixture :: "message list" where
  "history_fixture =
     [Message ''user'' ''She spends too much'',
      Message ''assistant'' ''That sounds frustrating.'',
      Message ''user'' ''What should I do?'']"

section \<open>Basic facts\<close>

subsection \<open>Modes and their selection\<close>

lemma MODES_simps:
  "MODES k = (if k = ''USER'' then Some ''my_point_of_view''
              else if k = ''WIFE'' then Some ''her_point_of_view''
              else if k = ''SOLOMON'' then Some ''king_solomon_wise'' else None)"
  by (simp add: MODES_def MODES_entries_def)

lemma MODES_range: "MODES k = Some v \<Longrightarrow> v \<in> {MODES_USER, MODES_WIFE, MODES_SOLOMON}"
  by (auto simp: MODES_simps MODES_USER_def MODES_WIFE_def MODES_SOLOMON_def split: if_splits)

lemma toUpperCase_ascii_USER: "toUpperCase_ascii ''USER'' = ''USER''"
  by (simp add: toUpperCase_ascii_def upper_char_def)

lemma toUpperCase_ascii_WIFE: "toUpperCase_ascii ''WIFE'' = ''WIFE''"
  by (simp add: toUpperCase_ascii_def upper_char_def)

lemma toUpperCase_ascii_Wife: "toUpperCase_ascii ''Wife'' = ''WIFE''"
  by (simp add: toUpperCase_ascii_def upper_char_def)

lemma toUpperCase_ascii_judge: "toUpperCase_ascii ''judge'' = ''JUDGE''"
  by (simp add: toUpperCase_ascii_def upper_char_def)

lemma toUpperCase_ascii_unknown: "toUpperCase_ascii ''unknown'' = ''UNKNOWN''"
  by (simp add: toUpperCase_ascii_def upper_char_def)

lemma select_mode_range:
  "currentMode c \<in> {MODES_USER, MODES_WIFE, MODES_SOLOMON} \<Longrightarrow>
     select_mode toUpperCase c inp \<in> {MODES_USER, MODES_WIFE, MODES_SOLOMON}"
  by (auto simp: select_mode_def split: option.splits dest: MODES_range)

lemma select_mode_unknown:
  "MODES (toUpperCase m) = None \<Longrightarrow> select_mode toUpperCase c (inp\<lparr>mode := Some m\<rparr>) = currentMode c"
  by (simp add: select_mode_def)

lemma select_mode_none: "select_mode toUpperCase c (inp\<lparr>mode := None\<rparr>) = currentMode c"
  by (simp add: select_mode_def)

lemma select_mode_api_input:
  "select_mode toUpperCase_ascii c (api_input ''USER'' x) = MODES_USER"
  "select_mode toUpperCase_ascii c (api_input ''WIFE'' x) = MODES_WIFE"
  by (simp_all add: select_mode_def api_input_def toUpperCase_ascii_USER toUpperCase_ascii_WIFE MODES_simps
      MODES_USER_def MODES_WIFE_def)

lemma request_messages_mode: "request_messages (inp\<lparr>mode := x\<rparr>) = request_messages inp"
  by (simp add: request_messages_def split: option.splits)

subsection \<open>The merged configuration\<close>

lemma merged_thread_id:
  "opt_chain (configurable (mergedConfig c cfg)) thread_id =
     (case opt_chain (configurable cfg) thread_id of
        Some t \<Rightarrow> Some t
      | None \<Rightarrow> Some (currentMode c @ ''_'' @ or_default (opt_chain (configurable cfg) sessionId) ''default''))"
  by (simp add: mergedConfig_def spread_def defaultConfig_def opt_chain_def over_def split: option.splits)

lemma merged_sessionId:
  "opt_chain (configurable (mergedConfig c cfg)) sessionId =
     (case opt_chain (configurable cfg) sessionId of
        Some s \<Rightarrow> Some s
      | None \<Rightarrow> Some ''default_session'')"
  by (simp add: mergedConfig_def spread_def defaultConfig_def opt_chain_def over_def or_default_def
      split: option.splits)

lemma merged_userId:
  "opt_chain (configurable (mergedConfig c cfg)) userId =
     (case opt_chain (configurable cfg) userId of
        Some u \<Rightarrow> Some u
      | None \<Rightarrow> Some ''default_user'')"
  by (simp add: mergedConfig_def spread_def defaultConfig_def opt_chain_def over_def or_default_def
      split: option.splits)

lemma mergedConfig_currentMode:
  "currentMode c = currentMode c0 \<Longrightarrow> mergedConfig c cfg = mergedConfig c0 cfg"
  by (simp add: mergedConfig_def defaultConfig_def)

lemma test_thread_id:
  "opt_chain (configurable (mergedConfig c test_config)) thread_id
     = Some (currentMode c @ ''_test_session'')"
  unfolding merged_thread_id by (simp add: test_config_def opt_chain_def or_default_def)

lemma test_config_userId:
  "or_default (opt_chain (configurable (mergedConfig c test_config)) userId) ''default_user'' = ''test_user''"
  by (simp add: mergedConfig_def spread_def defaultConfig_def test_config_def opt_chain_def over_def
      or_default_def)

lemma u1_uid: "or_default (opt_chain u1_config userId) ''default_user'' = ''u1''"
  by (simp add: u1_config_def opt_chain_def or_default_def)

text \<open>The derivation \<open>mode_session\<close> itself separates the three modes and the sessions.\<close>

lemma thread_key_injective:
  assumes "m1 \<in> {MODES_USER, MODES_WIFE, MODES_SOLOMON}"
      and "m2 \<in> {MODES_USER, MODES_WIFE, MODES_SOLOMON}"
      and "m1 @ ''_'' @ s1 = m2 @ ''_'' @ s2"
  shows "m1 = m2 \<and> s1 = s2"
  using assms by (auto simp: MODES_USER_def MODES_WIFE_def MODES_SOLOMON_def)

subsection \<open>The store and the tools\<close>

lemma store_put_again: "store_put st ns k v = Inr st1 \<Longrightarrow> store_put st1 ns k v = Inr st1"
  by (auto simp: store_put_def split: option.splits)

lemma store_put_overwrites:
  "store_put st ns k v = Inr st1 \<Longrightarrow> store_put st1 ns k w = Inr st2 \<Longrightarrow>
     items st2 (ns, k) = Some (Item w) \<and> store_put st ns k w = Inr st2"
  by (auto simp: store_put_def split: option.splits)

lemma saveUserStory_again:
  "store_after (saveUserStory i (tc\<lparr>tool_config.store := store_after (saveUserStory i tc)\<rparr>))
     = store_after (saveUserStory i tc)"
  by (simp add: saveUserStory_def store_put_def Let_def split: option.splits)

lemma saveWifeStory_again:
  "store_after (saveWifeStory i (tc\<lparr>tool_config.store := store_after (saveWifeStory i tc)\<rparr>))
     = store_after (saveWifeStory i tc)"
  by (simp add: saveWifeStory_def store_put_def Let_def split: option.splits)

lemma user_key_not_wife_key: "u @ ''_user'' \<noteq> w @ ''_wife''"
proof
  assume "u @ ''_user'' = w @ ''_wife''"
  then have "last (u @ ''_user'') = last (w @ ''_wife'')" by simp
  then show False by simp
qed

lemma saveUserStory_ops:
  "op \<in> set (ops (saveUserStory inp cfg)) \<Longrightarrow>
     op = Put [''stories''] (or_default (opt_chain (configurable cfg) userId) ''default_user'' @ ''_user'') \<lparr>story.content = story inp\<rparr>"
  by (auto simp: saveUserStory_def Let_def split: option.splits sum.splits)

lemma saveWifeStory_ops:
  "op \<in> set (ops (saveWifeStory inp cfg)) \<Longrightarrow>
     op = Put [''stories''] (or_default (opt_chain (configurable cfg) userId) ''default_user'' @ ''_wife'') \<lparr>story.content = story inp\<rparr>"
  by (auto simp: saveWifeStory_def Let_def split: option.splits sum.splits)

lemma getBothStories_ops:
  "op \<in> set (ops (getBothStories inp cfg)) \<Longrightarrow> \<exists>ns k. op = Get ns k"
  by (auto simp: getBothStories_def Let_def split: option.splits)

lemma getBothStories_outcome:
  assumes "tool_config.store tc = Some st"
  shows "outcome (getBothStories i tc) =
           Inr (report
                  (case truthy_content
                          (case store_get st [''stories'']
                                  (or_default (opt_chain (configurable tc) userId) ''default_user'' @ ''_user'') of
                             Inl e \<Rightarrow> None | Inr it \<Rightarrow> it) of
                     Some c \<Rightarrow> c | None \<Rightarrow> ''No story shared yet'')
                  (case truthy_content
                          (case store_get st [''stories'']
                                  (or_default (opt_chain (configurable tc) userId) ''default_user'' @ ''_wife'') of
                             Inl e \<Rightarrow> None | Inr it \<Rightarrow> it) of
                     Some c \<Rightarrow> c | None \<Rightarrow> ''No story shared yet''))"
  using assms by (simp add: getBothStories_def report_def Let_def split: option.splits)

lemma store_with_both_stories_gets:
  "store_get store_with_both_stories [''stories''] ''u1_user''
     = Inr (Some (Item \<lparr>story.content = ''She overspent on furniture''\<rparr>))"
  "store_get store_with_both_stories [''stories''] ''u1_wife''
     = Inr (Some (Item \<lparr>story.content = ''I bought only what the house needed''\<rparr>))"
  by (simp_all add: store_get_def store_with_both_stories_def InMemoryStore_def)

lemma both_stories_saved:
  "store_after
     (saveWifeStory \<lparr>story = ''I bought only what the house needed''\<rparr>
        \<lparr>configurable = u1_config,
         tool_config.store =
           store_after
             (saveUserStory \<lparr>story = ''She overspent on furniture''\<rparr>
                \<lparr>configurable = u1_config, tool_config.store = Some InMemoryStore\<rparr>)\<rparr>)
     = Some store_with_both_stories"
  by (simp add: saveUserStory_def saveWifeStory_def u1_uid Let_def store_put_def InMemoryStore_def
      store_with_both_stories_def)

lemma run_tools_calls:
  "(n, r) \<in> set (fst (run_tools ts cf plan st)) \<Longrightarrow>
     \<exists>t \<in> set ts. \<exists>inp st'. name t = n \<and> r = func t inp \<lparr>configurable = cf, tool_config.store = Some st'\<rparr>"
proof (induction plan arbitrary: st)
  case Nil
  then show ?case by simp
next
  case (Cons call rest)
  obtain n' inp' where call: "call = (n', inp')" by (cases call)
  show ?case
  proof (cases "find (\<lambda>t. name t = n') ts")
    case None
    then show ?thesis using Cons call by simp
  next
    case (Some t)
    then have t: "t \<in> set ts" "name t = n'"
      by (auto simp: find_Some_iff)
    define r' where "r' = func t inp' \<lparr>configurable = cf, tool_config.store = Some st\<rparr>"
    define st1 where "st1 = (case store_after r' of Some s \<Rightarrow> s | None \<Rightarrow> st)"
    have unfold: "fst (run_tools ts cf (call # rest) st) = (n', r') # fst (run_tools ts cf rest st1)"
      using Some call by (simp add: Let_def r'_def st1_def split: prod.splits)
    from Cons.prems unfold
    have "(n, r) = (n', r') \<or> (n, r) \<in> set (fst (run_tools ts cf rest st1))"
      by simp
    then show ?thesis
    proof
      assume "(n, r) = (n', r')"
      then show ?thesis using t r'_def by blast
    next
      assume "(n, r) \<in> set (fst (run_tools ts cf rest st1))"
      then show ?thesis by (rule Cons.IH)
    qed
  qed
qed

subsection \<open>The prompt function\<close>

lemma templates_nonempty:
  "systemMessage_USER \<noteq> []" "systemMessage_WIFE \<noteq> []" "systemMessage_SOLOMON \<noteq> []"
  by (simp_all add: systemMessage_USER_def systemMessage_WIFE_def systemMessage_SOLOMON_def)

lemma systemMessages_simps:
  "systemMessages MODES_USER = Some systemMessage_USER"
  "systemMessages MODES_WIFE = Some systemMessage_WIFE"
  "systemMessages MODES_SOLOMON = Some systemMessage_SOLOMON"
  by (simp_all add: systemMessages_def MODES_USER_def MODES_WIFE_def MODES_SOLOMON_def)

text \<open>The history is passed on whole, whatever the mode and the configuration.\<close>

lemma getPromptFunction_history:
  "tl (getPromptFunction m st cfg) = graph_state.messages st
   \<and> length (getPromptFunction m st cfg) = Suc (length (graph_state.messages st))"
  by (simp add: getPromptFunction_def Let_def)

subsection \<open>The invariant of reachable counselors\<close>

lemma well_formed_fresh: "well_formed new_counselor"
  by (simp add: well_formed_def new_counselor_def)

lemma well_formed_setMode: "well_formed c \<Longrightarrow> well_formed (snd (setMode toUpperCase m c))"
  by (auto simp: well_formed_def setMode_def split: option.splits dest: MODES_range)

lemma initialize_well_formed:
  "well_formed c \<Longrightarrow> initialize e c = Inr c1 \<Longrightarrow>
     well_formed c1 \<and> initialized c1 \<and> agents c1 = wired_agents \<and> currentMode c1 = currentMode c
       \<and> counselor.store c1 = counselor.store c \<and> checkpointer c1 = checkpointer c"
  by (auto simp: well_formed_def initialize_def wired_agents_def split: if_splits option.splits)

lemma initialize_again: "initialized c \<Longrightarrow> initialize e c = Inr c"
  by (simp add: initialize_def)

lemma initialize_test_env:
  "initialize test_env new_counselor = Inr (new_counselor\<lparr>agents := wired_agents, initialized := True\<rparr>)"
  by (simp add: initialize_def test_env_def new_counselor_def or_default_def wired_agents_def)

lemma agent_invoke_keeps:
  "agent_invoke ag k ms cfg plan c = (t, c') \<Longrightarrow>
     currentMode c' = currentMode c \<and> agents c' = agents c \<and> initialized c' = initialized c
     \<and> target t = k \<and> run_config t = cfg
     \<and> calls t = fst (run_tools (tools ag) (configurable cfg) plan (counselor.store c))"
  by (auto simp: agent_invoke_def Let_def split: prod.splits)

lemma well_formed_invoke: "well_formed c \<Longrightarrow> well_formed (snd (invoke toUpperCase inp cfg e plan c))"
proof -
  assume wf: "well_formed c"
  show ?thesis
  proof (cases "initialize e c")
    case (Inl err)
    then show ?thesis using wf by (simp add: invoke_def)
  next
    case (Inr c1)
    note wf1 = initialize_well_formed [OF wf Inr]
    show ?thesis
    proof (cases "agents c1 (select_mode toUpperCase c1 inp)")
      case None
      then show ?thesis using Inr wf1 by (simp add: invoke_def Let_def)
    next
      case (Some ag)
      obtain t c' where ai: "agent_invoke ag (select_mode toUpperCase c1 inp) (request_messages inp) (mergedConfig c1 cfg) plan c1 = (t, c')"
        by fastforce
      from agent_invoke_keeps [OF ai] wf1 have "well_formed c'"
        by (auto simp: well_formed_def)
      then show ?thesis using Inr Some ai by (simp add: invoke_def Let_def)
    qed
  qed
qed

lemma reachable_well_formed: "reachable c \<Longrightarrow> well_formed c"
  by (induction rule: reachable.induct)
     (simp_all add: well_formed_fresh well_formed_setMode well_formed_invoke initialize_well_formed)

lemma wired_agents_cases:
  "wired_agents m = Some ag \<Longrightarrow>
     (m = MODES_USER \<and> tools ag = createUserModeTools)
   \<or> (m = MODES_WIFE \<and> tools ag = createWifeModeTools)
   \<or> (m = MODES_SOLOMON \<and> tools ag = createSolomonModeTools)"
  by (auto simp: wired_agents_def MODES_USER_def MODES_WIFE_def MODES_SOLOMON_def split: if_splits)

lemma wired_agents_defined:
  "m \<in> {MODES_USER, MODES_WIFE, MODES_SOLOMON} \<Longrightarrow> \<exists>ag. wired_agents m = Some ag"
  by (auto simp: wired_agents_def MODES_USER_def MODES_WIFE_def MODES_SOLOMON_def)

lemma wired_agents_simps:
  "wired_agents MODES_USER = Some \<lparr>tools = createUserModeTools, prompt = getPromptFunction MODES_USER\<rparr>"
  "wired_agents MODES_WIFE = Some \<lparr>tools = createWifeModeTools, prompt = getPromptFunction MODES_WIFE\<rparr>"
  "wired_agents MODES_SOLOMON = Some \<lparr>tools = createSolomonModeTools, prompt = getPromptFunction MODES_SOLOMON\<rparr>"
  by (simp_all add: wired_agents_def MODES_USER_def MODES_WIFE_def MODES_SOLOMON_def)

subsection \<open>What invoke returns\<close>

lemma invoke_turn:
  assumes "well_formed c0" and "invoke toUpperCase inp cfg e plan c0 = (Inr t, c')"
  shows "\<exists>c ag. initialize e c0 = Inr c \<and> wired_agents (target t) = Some ag
           \<and> target t = select_mode toUpperCase c inp \<and> run_config t = mergedConfig c cfg
           \<and> currentMode c = currentMode c0
           \<and> calls t = fst (run_tools (tools ag) (configurable (mergedConfig c cfg)) plan (counselor.store c))"
proof (cases "initialize e c0")
  case (Inl err)
  then show ?thesis using assms by (simp add: invoke_def)
next
  case (Inr c)
  note wf1 = initialize_well_formed [OF assms(1) Inr]
  show ?thesis
  proof (cases "agents c (select_mode toUpperCase c inp)")
    case None
    then show ?thesis using Inr assms by (simp add: invoke_def Let_def)
  next
    case (Some ag)
    obtain t1 c1 where ai: "agent_invoke ag (select_mode toUpperCase c inp) (request_messages inp) (mergedConfig c cfg) plan c = (t1, c1)"
      by fastforce
    have "t1 = t" using Inr Some ai assms(2) by (simp add: invoke_def Let_def)
    with agent_invoke_keeps [OF ai] Some wf1 Inr show ?thesis by auto
  qed
qed

lemma invoke_result:
  assumes "well_formed c0" and "initialize e c0 = Inr c"
  shows "\<exists>t c' ag. invoke toUpperCase inp cfg e plan c0 = (Inr t, c')
           \<and> wired_agents (select_mode toUpperCase c inp) = Some ag
           \<and> target t = select_mode toUpperCase c inp \<and> run_config t = mergedConfig c cfg
           \<and> calls t = fst (run_tools (tools ag) (configurable (mergedConfig c cfg)) plan (counselor.store c))"
proof -
  note wf1 = initialize_well_formed [OF assms]
  then have "select_mode toUpperCase c inp \<in> {MODES_USER, MODES_WIFE, MODES_SOLOMON}"
    using select_mode_range [of c toUpperCase inp] by (auto simp: well_formed_def)
  then obtain ag where ag: "wired_agents (select_mode toUpperCase c inp) = Some ag"
    using wired_agents_defined by blast
  obtain t c' where ai:
    "agent_invoke ag (select_mode toUpperCase c inp) (request_messages inp) (mergedConfig c cfg) plan c = (t, c')"
    by fastforce
  have "invoke toUpperCase inp cfg e plan c0 = (Inr t, c')"
    using assms(2) ag ai wf1 by (simp add: invoke_def Let_def)
  with agent_invoke_keeps [OF ai] ag show ?thesis by auto
qed

lemma invoke_unfold:
  assumes "well_formed c0" and "initialize e c0 = Inr c" and "wired_agents (select_mode toUpperCase c inp) = Some ag"
  shows "invoke toUpperCase inp cfg e plan c0 =
           (Inr (fst (agent_invoke ag (select_mode toUpperCase c inp) (request_messages inp) (mergedConfig c cfg) plan c)),
            snd (agent_invoke ag (select_mode toUpperCase c inp) (request_messages inp) (mergedConfig c cfg) plan c))"
  using assms initialize_well_formed [OF assms(1,2)]
  by (simp add: invoke_def Let_def split: prod.splits)

lemma invoke_Inr:
  assumes "invoke toUpperCase inp cfg e plan c0 = (Inr t, c')"
  shows "\<exists>c ag. initialize e c0 = Inr c \<and> currentMode c = currentMode c0
           \<and> agents c (select_mode toUpperCase c inp) = Some ag
           \<and> target t = select_mode toUpperCase c inp \<and> run_config t = mergedConfig c cfg
           \<and> calls t = fst (run_tools (tools ag) (configurable (mergedConfig c cfg)) plan (counselor.store c))"
proof (cases "initialize e c0")
  case (Inl err)
  then show ?thesis using assms by (simp add: invoke_def)
next
  case (Inr c)
  then have cm: "currentMode c = currentMode c0"
    by (auto simp: initialize_def split: if_splits option.splits)
  show ?thesis
  proof (cases "agents c (select_mode toUpperCase c inp)")
    case None
    then show ?thesis using Inr assms by (simp add: invoke_def Let_def)
  next
    case (Some ag)
    obtain t1 c1 where ai:
      "agent_invoke ag (select_mode toUpperCase c inp) (request_messages inp) (mergedConfig c cfg) plan c = (t1, c1)"
      by fastforce
    have "t1 = t" using Inr Some ai assms by (simp add: invoke_def Let_def)
    with agent_invoke_keeps [OF ai] Some cm Inr show ?thesis by auto
  qed
qed

lemma Inr_turn:
  "\<not> isl (fst r) \<Longrightarrow> r = (Inr (projr (fst r)), snd r)"
  by (metis prod.collapse sum.collapse(2))

lemma invoke_succeeds:
  assumes "well_formed c0" and "initialize e c0 = Inr c"
  shows "\<not> isl (fst (invoke toUpperCase inp cfg e plan c0))"
  using invoke_result [OF assms, of toUpperCase inp cfg plan] by auto

lemma fresh_invoke:
  assumes "wired_agents (select_mode toUpperCase new_counselor inp) = Some ag"
  shows "\<not> isl (fst (invoke toUpperCase inp cfg test_env plan new_counselor))
         \<and> target (projr (fst (invoke toUpperCase inp cfg test_env plan new_counselor))) = select_mode toUpperCase new_counselor inp
         \<and> run_config (projr (fst (invoke toUpperCase inp cfg test_env plan new_counselor))) = mergedConfig new_counselor cfg
         \<and> calls (projr (fst (invoke toUpperCase inp cfg test_env plan new_counselor)))
             = fst (run_tools (tools ag) (configurable (mergedConfig new_counselor cfg)) plan InMemoryStore)"
proof -
  let ?c = "new_counselor\<lparr>agents := wired_agents, initialized := True\<rparr>"
  have sm: "select_mode toUpperCase ?c inp = select_mode toUpperCase new_counselor inp"
    by (simp add: select_mode_def split: option.splits)
  have mc: "mergedConfig ?c cfg = mergedConfig new_counselor cfg"
    by (simp add: mergedConfig_def defaultConfig_def)
  have st: "counselor.store ?c = InMemoryStore"
    by (simp add: new_counselor_def)
  have ag: "wired_agents (select_mode toUpperCase ?c inp) = Some ag"
    using assms sm by simp
  let ?X = "agent_invoke ag (select_mode toUpperCase new_counselor inp) (request_messages inp)
              (mergedConfig new_counselor cfg) plan ?c"
  have inv: "invoke toUpperCase inp cfg test_env plan new_counselor = (Inr (fst ?X), snd ?X)"
    using invoke_unfold [OF well_formed_fresh initialize_test_env ag, of cfg plan]
    by (simp only: sm mc)
  obtain t c' where ai: "?X = (t, c')"
    by fastforce
  from agent_invoke_keeps [OF ai] show ?thesis
    by (simp add: inv ai st)
qed

subsection \<open>The turns of the fixtures\<close>

lemma advocate_run_result:
  "\<not> isl (fst advocate_run)
   \<and> target (projr (fst advocate_run)) = MODES_USER
   \<and> calls (projr (fst advocate_run)) = [(''save_user_story'', advocate_call)]"
proof -
  let ?c = "new_counselor\<lparr>agents := wired_agents, initialized := True\<rparr>"
  from invoke_result [OF well_formed_fresh initialize_test_env,
      of toUpperCase_ascii advocate_input test_config advocate_plan]
  obtain t c' ag where r: "invoke toUpperCase_ascii advocate_input test_config test_env advocate_plan new_counselor = (Inr t, c')"
    and ag: "wired_agents (select_mode toUpperCase_ascii ?c advocate_input) = Some ag"
    and tg: "target t = select_mode toUpperCase_ascii ?c advocate_input"
    and cs: "calls t = fst (run_tools (tools ag) (configurable (mergedConfig ?c test_config))
                advocate_plan (counselor.store ?c))"
    by blast
  have sm: "select_mode toUpperCase_ascii ?c advocate_input = MODES_USER"
    by (simp add: select_mode_def advocate_input_def toUpperCase_ascii_USER MODES_simps MODES_USER_def)
  from ag sm have tools: "tools ag = createUserModeTools"
    by (auto simp: wired_agents_def MODES_USER_def MODES_WIFE_def MODES_SOLOMON_def)
  have "calls t = [(''save_user_story'', advocate_call)]"
    unfolding cs tools
    by (simp add: advocate_plan_def createUserModeTools_def advocate_call_def Let_def
        mergedConfig_def defaultConfig_def new_counselor_def)
  with r tg sm show ?thesis by (simp add: advocate_run_def)
qed

lemma advocate_call_ops:
  "ops advocate_call = [Put [''stories''] ''test_user_user'' \<lparr>story.content = ''She overspent on furniture''\<rparr>]"
  by (simp add: advocate_call_def saveUserStory_def mergedConfig_def spread_def defaultConfig_def
      test_config_def opt_chain_def over_def or_default_def Let_def store_put_def InMemoryStore_def)

lemma user_turn_eq:
  "user_turn =
     (Inr \<lparr>target = MODES_USER, run_config = mergedConfig new_counselor test_config,
           instruction =
             getPromptFunction MODES_USER
               \<lparr>graph_state.messages = [Message ''user'' ''She bought more stuff we do not need.'']\<rparr>
               (mergedConfig new_counselor test_config),
           calls = []\<rparr>,
      counselor_after_user_turn)"
  unfolding user_turn_def
  apply (subst invoke_unfold [OF well_formed_fresh initialize_test_env])
   apply (simp add: select_mode_api_input wired_agents_simps)
  apply (simp add: select_mode_api_input agent_invoke_def test_thread_id Let_def thread_history_def)
  apply (simp add: new_counselor_def api_input_def request_messages_def mergedConfig_def defaultConfig_def
      MODES_SOLOMON_def counselor_after_user_turn_def)
  done

lemma well_formed_after_user_turn: "well_formed counselor_after_user_turn"
  by (simp add: well_formed_def counselor_after_user_turn_def new_counselor_def)

lemma wife_turn_eq:
  "fst wife_turn =
     Inr \<lparr>target = MODES_WIFE, run_config = mergedConfig new_counselor test_config,
          instruction =
            getPromptFunction MODES_WIFE
              \<lparr>graph_state.messages =
                 [Message ''user'' ''She bought more stuff we do not need.'',
                  Message ''user'' ''I only buy things we need for the house.'']\<rparr>
              (mergedConfig new_counselor test_config),
          calls = []\<rparr>"
proof -
  have init: "initialize test_env counselor_after_user_turn = Inr counselor_after_user_turn"
    by (simp add: initialize_again counselor_after_user_turn_def)
  show ?thesis
    unfolding wife_turn_def user_turn_eq snd_conv
    apply (subst invoke_unfold [OF well_formed_after_user_turn init])
     apply (simp add: select_mode_api_input wired_agents_simps)
    apply (simp add: select_mode_api_input agent_invoke_def test_thread_id Let_def thread_history_def)
    apply (simp add: new_counselor_def api_input_def request_messages_def mergedConfig_def defaultConfig_def
      MODES_SOLOMON_def counselor_after_user_turn_def)
    done
qed

lemma pinned_turn_ok: "\<not> isl (fst pinned_turn)"
  unfolding pinned_turn_def by (rule invoke_succeeds [OF well_formed_fresh initialize_test_env])

section \<open>Store writes and personas\<close>

text \<open>
  Claim C1. In every run of the system, a tool call that writes a key of the form
  \<open>u_user\<close> runs in a turn of the agent of mode \<open>my_point_of_view\<close> and is a tool of
  \<^verbatim>\<open>createUserModeTools\<close>; a tool call that writes a key of the form \<open>u_wife\<close> runs in
  a turn of the agent of mode \<open>her_point_of_view\<close> and is a tool of
  \<^verbatim>\<open>createWifeModeTools\<close>; the agent of mode \<open>king_solomon_wise\<close> writes nothing.
\<close>

theorem store_writes_by_owning_persona:
  assumes "reachable c0"
      and "invoke toUpperCase inp cfg e plan c0 = (Inr t, c')"
      and "(n, r) \<in> set (calls t)"
      and "Put ns k v \<in> set (ops r)"
  shows "(\<forall>u. k = u @ ''_user'' \<longrightarrow> target t = MODES_USER \<and> n \<in> set (map name createUserModeTools))
       \<and> (\<forall>u. k = u @ ''_wife'' \<longrightarrow> target t = MODES_WIFE \<and> n \<in> set (map name createWifeModeTools))
       \<and> target t \<noteq> MODES_SOLOMON"
proof -
  from reachable_well_formed [OF assms(1)] have wf: "well_formed c0" .
  from invoke_turn [OF wf assms(2)] obtain c ag where
    ag: "wired_agents (target t) = Some ag" and
    cs: "calls t = fst (run_tools (tools ag) (configurable (mergedConfig c cfg)) plan (counselor.store c))"
    by blast
  from assms(3) cs run_tools_calls obtain tl i st' where
    tl: "tl \<in> set (tools ag)" "name tl = n"
        "r = func tl i \<lparr>configurable = configurable (mergedConfig c cfg), tool_config.store = Some st'\<rparr>"
    by metis
  from wired_agents_cases [OF ag] show ?thesis
  proof (elim disjE conjE)
    assume m: "target t = MODES_USER" and ts: "tools ag = createUserModeTools"
    with tl assms(4) saveUserStory_ops show ?thesis
      by (fastforce simp: createUserModeTools_def user_key_not_wife_key MODES_USER_def MODES_SOLOMON_def)
  next
    assume m: "target t = MODES_WIFE" and ts: "tools ag = createWifeModeTools"
    with tl assms(4) saveWifeStory_ops show ?thesis
      by (fastforce simp: createWifeModeTools_def user_key_not_wife_key [symmetric] MODES_WIFE_def MODES_SOLOMON_def)
  next
    assume m: "target t = MODES_SOLOMON" and ts: "tools ag = createSolomonModeTools"
    with tl assms(4) getBothStories_ops show ?thesis
      by (fastforce simp: createSolomonModeTools_def)
  qed
qed

text \<open>
  A turn of the advocate on a fresh counselor in which the model records a grievance: the
  write goes to \<open>test_user_user\<close> and the turn is a \<open>my_point_of_view\<close> turn.
\<close>

theorem store_writes_by_owning_persona_witness:
  "reachable new_counselor
   \<and> advocate_run = (Inr (projr (fst advocate_run)), snd advocate_run)
   \<and> (''save_user_story'', advocate_call) \<in> set (calls (projr (fst advocate_run)))
   \<and> Put [''stories''] ''test_user_user'' \<lparr>story.content = ''She overspent on furniture''\<rparr>
        \<in> set (ops advocate_call)
   \<and> target (projr (fst advocate_run)) = MODES_USER
   \<and> ''save_user_story'' \<in> set (map name createUserModeTools)"
proof -
  have h1: "reachable new_counselor" by (rule reachable.fresh)
  have h2: "advocate_run = (Inr (projr (fst advocate_run)), snd advocate_run)"
    using advocate_run_result by (metis prod.collapse sum.collapse(2))
  have h3: "(''save_user_story'', advocate_call) \<in> set (calls (projr (fst advocate_run)))"
    using advocate_run_result by simp
  have h4: "Put [''stories''] ''test_user_user'' \<lparr>story.content = ''She overspent on furniture''\<rparr>
              \<in> set (ops advocate_call)"
    by (simp add: advocate_call_ops)
  have "''test_user_user'' = ''test_user'' @ ''_user''" by simp
  with store_writes_by_owning_persona [OF h1 h2 [unfolded advocate_run_def] h3 [unfolded advocate_run_def] h4]
  have "target (projr (fst advocate_run)) = MODES_USER
        \<and> ''save_user_story'' \<in> set (map name createUserModeTools)"
    unfolding advocate_run_def by blast
  with h1 h2 h3 h4 show ?thesis by blast
qed

section \<open>Thread keys\<close>

text \<open>
  Claim C2. The thread key \<open>mode_session\<close> is meant to be private to the persona that
  handles the turn. \<^verbatim>\<open>invoke\<close> builds the key from the current mode before it reads
  the mode of the input, so the key does not follow the handling persona: in the calls of
  the test script the advocate's turn and the opposing role-play's turn of one session
  both run under the key \<open>king_solomon_wise_test_session\<close>, and the instruction of the
  second turn carries the first turn's message as its history.
\<close>

theorem input_mode_turns_share_thread_key:
  "target (projr (fst user_turn)) = ''my_point_of_view''
   \<and> target (projr (fst wife_turn)) = ''her_point_of_view''
   \<and> opt_chain (configurable (run_config (projr (fst user_turn)))) thread_id
       = Some ''king_solomon_wise_test_session''
   \<and> opt_chain (configurable (run_config (projr (fst wife_turn)))) thread_id
       = Some ''king_solomon_wise_test_session''
   \<and> tl (instruction (projr (fst wife_turn)))
       = [Message ''user'' ''She bought more stuff we do not need.'',
          Message ''user'' ''I only buy things we need for the house.'']"
  by (simp add: user_turn_eq wife_turn_eq test_thread_id getPromptFunction_def Let_def
      MODES_USER_def MODES_WIFE_def) (simp add: new_counselor_def MODES_SOLOMON_def)

section \<open>Unknown personas\<close>

text \<open>
  Claim C3 as stated fails: invoked with the persona \<open>unknown\<close>, a fresh counselor throws
  nothing, hands the turn to the agent of \<open>king_solomon_wise\<close>, and that agent's tool reads
  the store twice.
\<close>

theorem unknown_persona_counterexample:
  "\<not> isl (fst unknown_turn)
   \<and> target (projr (fst unknown_turn)) = ''king_solomon_wise''
   \<and> map (ops \<circ> snd) (calls (projr (fst unknown_turn)))
       = [[Get [''stories''] ''test_user_user'', Get [''stories''] ''test_user_wife'']]"
proof -
  have sm: "select_mode toUpperCase_ascii new_counselor (api_input ''unknown'' ''Who is right?'') = MODES_SOLOMON"
    by (simp add: select_mode_def api_input_def toUpperCase_ascii_unknown MODES_simps new_counselor_def)
  have ag: "wired_agents (select_mode toUpperCase_ascii new_counselor (api_input ''unknown'' ''Who is right?''))
              = Some \<lparr>tools = createSolomonModeTools, prompt = getPromptFunction MODES_SOLOMON\<rparr>"
    by (simp add: sm wired_agents_simps)
  have ops: "ops (getBothStories \<lparr>story = []\<rparr>
                 \<lparr>configurable = configurable (mergedConfig new_counselor test_config),
                  tool_config.store = Some InMemoryStore\<rparr>)
               = [Get [''stories''] ''test_user_user'', Get [''stories''] ''test_user_wife'']"
    by (simp add: getBothStories_def Let_def test_config_userId)
  from fresh_invoke [OF ag, of test_config "[(''get_both_stories'', \<lparr>story = []\<rparr>)]"]
  show ?thesis
    by (simp add: unknown_turn_def sm MODES_SOLOMON_def createSolomonModeTools_def Let_def ops
        split: prod.splits)
qed

text \<open>
  Claim C3, amended. A mode in the input whose upper-casing is not \<open>USER\<close>, \<open>WIFE\<close> or
  \<open>SOLOMON\<close> is ignored: \<^verbatim>\<open>invoke\<close> behaves as if no mode had been given, does not fail
  on that account, and the turn is handled by the agent of the current mode. This holds
  for every upper-casing function, so for the Unicode one of the source.
\<close>

theorem unknown_persona_handled_by_current_mode:
  assumes "reachable c0" and "initialize e c0 = Inr c" and "MODES (toUpperCase m) = None"
  shows "invoke toUpperCase (inp\<lparr>mode := Some m\<rparr>) cfg e plan c0 = invoke toUpperCase (inp\<lparr>mode := None\<rparr>) cfg e plan c0
         \<and> \<not> isl (fst (invoke toUpperCase (inp\<lparr>mode := Some m\<rparr>) cfg e plan c0))
         \<and> target (projr (fst (invoke toUpperCase (inp\<lparr>mode := Some m\<rparr>) cfg e plan c0))) = currentMode c0"
proof -
  have same: "invoke toUpperCase (inp\<lparr>mode := Some m\<rparr>) cfg e plan c0 = invoke toUpperCase (inp\<lparr>mode := None\<rparr>) cfg e plan c0"
    by (simp add: invoke_def Let_def select_mode_unknown [of toUpperCase m, OF assms(3)] select_mode_none
        request_messages_mode split: sum.splits option.splits)
  from reachable_well_formed [OF assms(1)] have wf: "well_formed c0" .
  from invoke_result [OF wf assms(2), of toUpperCase "inp\<lparr>mode := Some m\<rparr>" cfg plan]
    initialize_well_formed [OF wf assms(2)]
  have "\<not> isl (fst (invoke toUpperCase (inp\<lparr>mode := Some m\<rparr>) cfg e plan c0))
        \<and> target (projr (fst (invoke toUpperCase (inp\<lparr>mode := Some m\<rparr>) cfg e plan c0))) = currentMode c0"
    by (auto simp: select_mode_unknown [of toUpperCase m, OF assms(3)])
  with same show ?thesis by simp
qed

text \<open>The amended claim at the persona \<open>unknown\<close> on a fresh counselor.\<close>

theorem unknown_persona_handled_by_current_mode_witness:
  "reachable new_counselor
   \<and> initialize test_env new_counselor = Inr (new_counselor\<lparr>agents := wired_agents, initialized := True\<rparr>)
   \<and> MODES (toUpperCase_ascii ''unknown'') = None
   \<and> \<not> isl (fst (invoke toUpperCase_ascii (api_input ''unknown'' ''Who is right?'') test_config test_env [] new_counselor))
   \<and> target (projr (fst (invoke toUpperCase_ascii (api_input ''unknown'' ''Who is right?'') test_config test_env [] new_counselor)))
       = ''king_solomon_wise''"
proof -
  have h3: "MODES (toUpperCase_ascii ''unknown'') = None"
    by (simp add: toUpperCase_ascii_unknown MODES_simps)
  have inp: "(api_input ''unknown'' ''Who is right?'')\<lparr>mode := Some ''unknown''\<rparr>
               = api_input ''unknown'' ''Who is right?''"
    by (simp add: api_input_def)
  note th = unknown_persona_handled_by_current_mode
      [where toUpperCase = toUpperCase_ascii and m = "''unknown''",
       OF reachable.fresh initialize_test_env h3,
      of "api_input ''unknown'' ''Who is right?''" test_config "[]", unfolded inp]
  have cm: "currentMode new_counselor = ''king_solomon_wise''"
    by (simp add: new_counselor_def MODES_SOLOMON_def)
  from th have a: "\<not> isl (fst (invoke toUpperCase_ascii (api_input ''unknown'' ''Who is right?'') test_config test_env [] new_counselor))"
    by blast
  from th [THEN conjunct2, THEN conjunct2] cm have b: "target (projr (fst (invoke toUpperCase_ascii (api_input ''unknown'' ''Who is right?'') test_config test_env [] new_counselor)))
       = ''king_solomon_wise''"
    by simp
  show ?thesis using reachable.fresh initialize_test_env h3 a b by blast
qed

section \<open>Missing identities\<close>

text \<open>
  Claim C4 as stated fails: invoked without a \<open>sessionId\<close>, the counselor throws nothing,
  the session becomes \<open>default_session\<close>, the thread key ends in \<open>default\<close>, and the
  advocate's tool runs and writes the store.
\<close>

theorem missing_session_counterexample:
  "\<not> isl (fst no_session_turn)
   \<and> opt_chain (configurable (run_config (projr (fst no_session_turn)))) sessionId = Some ''default_session''
   \<and> opt_chain (configurable (run_config (projr (fst no_session_turn)))) thread_id
       = Some ''king_solomon_wise_default''
   \<and> map (ops \<circ> snd) (calls (projr (fst no_session_turn)))
       = [[Put [''stories''] ''u1_user'' \<lparr>story.content = ''She overspent on furniture''\<rparr>]]"
proof -
  have ag: "wired_agents (select_mode toUpperCase_ascii new_counselor (api_input ''USER'' ''She spends too much''))
              = Some \<lparr>tools = createUserModeTools, prompt = getPromptFunction MODES_USER\<rparr>"
    by (simp add: select_mode_api_input wired_agents_simps)
  have cf: "mergedConfig new_counselor no_session_config =
              \<lparr>configurable =
                 Some \<lparr>thread_id = Some ''king_solomon_wise_default'', checkpoint_ns = Some [],
                       userId = Some ''u1'', sessionId = Some ''default_session''\<rparr>\<rparr>"
    by (simp add: mergedConfig_def spread_def defaultConfig_def no_session_config_def opt_chain_def
        over_def or_default_def new_counselor_def MODES_SOLOMON_def)
  from fresh_invoke [OF ag, of no_session_config
      "[(''save_user_story'', \<lparr>story = ''She overspent on furniture''\<rparr>)]"]
  show ?thesis
    by (simp add: no_session_turn_def cf createUserModeTools_def Let_def opt_chain_def
        saveUserStory_def or_default_def store_put_def InMemoryStore_def split: prod.splits)
qed

text \<open>
  Claim C4, amended. On a reachable counselor whose initialization succeeds, \<^verbatim>\<open>invoke\<close>
  never fails for a missing identity: an absent \<open>sessionId\<close> becomes \<open>default_session\<close>
  (and \<open>default\<close> inside the derived thread key), an absent \<open>userId\<close> becomes
  \<open>default_user\<close>, and a save tool called without a \<open>userId\<close> writes under
  \<open>default_user\<close>.
\<close>

theorem missing_identity_defaults:
  assumes "reachable c0" and "initialize e c0 = Inr c"
  shows "\<not> isl (fst (invoke toUpperCase inp cfg e plan c0))
         \<and> (opt_chain (configurable cfg) sessionId = None \<longrightarrow>
              opt_chain (configurable (run_config (projr (fst (invoke toUpperCase inp cfg e plan c0))))) sessionId
                = Some ''default_session'')
         \<and> (opt_chain (configurable cfg) sessionId = None \<and> opt_chain (configurable cfg) thread_id = None \<longrightarrow>
              opt_chain (configurable (run_config (projr (fst (invoke toUpperCase inp cfg e plan c0))))) thread_id
                = Some (currentMode c0 @ ''_default''))
         \<and> (opt_chain (configurable cfg) userId = None \<longrightarrow>
              opt_chain (configurable (run_config (projr (fst (invoke toUpperCase inp cfg e plan c0))))) userId
                = Some ''default_user'')
         \<and> (opt_chain (configurable tc) userId = None \<and> tool_config.store tc = Some st \<longrightarrow>
              ops (saveUserStory i tc) = [Put [''stories''] ''default_user_user'' \<lparr>story.content = story i\<rparr>]
              \<and> ops (saveWifeStory i tc) = [Put [''stories''] ''default_user_wife'' \<lparr>story.content = story i\<rparr>])"
proof -
  from reachable_well_formed [OF assms(1)] have wf: "well_formed c0" .
  have ok: "\<not> isl (fst (invoke toUpperCase inp cfg e plan c0))"
    by (rule invoke_succeeds [OF wf assms(2)])
  from invoke_Inr [OF Inr_turn [OF ok]] obtain c1 where
    "currentMode c1 = currentMode c0"
    and "run_config (projr (fst (invoke toUpperCase inp cfg e plan c0))) = mergedConfig c1 cfg"
    by blast
  then have rc: "run_config (projr (fst (invoke toUpperCase inp cfg e plan c0))) = mergedConfig c0 cfg"
    using mergedConfig_currentMode [of c1 c0 cfg] by simp
  have tools:
    "opt_chain (configurable tc) userId = None \<and> tool_config.store tc = Some st \<longrightarrow>
       ops (saveUserStory i tc) = [Put [''stories''] ''default_user_user'' \<lparr>story.content = story i\<rparr>]
       \<and> ops (saveWifeStory i tc) = [Put [''stories''] ''default_user_wife'' \<lparr>story.content = story i\<rparr>]"
    by (simp add: saveUserStory_def saveWifeStory_def or_default_def Let_def split: sum.splits)
  show ?thesis
    unfolding rc merged_sessionId merged_userId merged_thread_id
    using ok tools by (simp add: or_default_def)
qed

text \<open>The amended claim at a configuration with no identity at all.\<close>

theorem missing_identity_defaults_witness:
  "reachable new_counselor
   \<and> initialize test_env new_counselor = Inr (new_counselor\<lparr>agents := wired_agents, initialized := True\<rparr>)
   \<and> opt_chain (configurable anonymous_config) sessionId = None
   \<and> opt_chain (configurable anonymous_config) thread_id = None
   \<and> opt_chain (configurable anonymous_config) userId = None
   \<and> \<not> isl (fst anonymous_turn)
   \<and> opt_chain (configurable (run_config (projr (fst anonymous_turn)))) sessionId = Some ''default_session''
   \<and> opt_chain (configurable (run_config (projr (fst anonymous_turn)))) thread_id = Some ''king_solomon_wise_default''
   \<and> opt_chain (configurable (run_config (projr (fst anonymous_turn)))) userId = Some ''default_user''
   \<and> ops (saveUserStory \<lparr>story = ''She overspent on furniture''\<rparr>
            \<lparr>configurable = None, tool_config.store = Some InMemoryStore\<rparr>)
       = [Put [''stories''] ''default_user_user'' \<lparr>story.content = ''She overspent on furniture''\<rparr>]"
proof -
  have n: "opt_chain (configurable anonymous_config) sessionId = None"
    "opt_chain (configurable anonymous_config) thread_id = None"
    "opt_chain (configurable anonymous_config) userId = None"
    by (simp_all add: anonymous_config_def opt_chain_def)
  have cm: "currentMode new_counselor @ ''_default'' = ''king_solomon_wise_default''"
    by (simp add: new_counselor_def MODES_SOLOMON_def)
  note th = missing_identity_defaults [OF reachable.fresh initialize_test_env,
      of toUpperCase_ascii "api_input ''USER'' ''She spends too much''" anonymous_config "[]"
         "\<lparr>configurable = None, tool_config.store = Some InMemoryStore\<rparr>" InMemoryStore
         "\<lparr>story = ''She overspent on furniture''\<rparr>", folded anonymous_turn_def]
  from th n cm show ?thesis
    using reachable.fresh initialize_test_env by (simp add: opt_chain_def)
qed

section \<open>The combined read\<close>

text \<open>
  Claim C5 as stated fails: after the advocate's tool has written an empty text, the
  record is in the store, but the combined read prints \<open>No story shared yet\<close> for the
  user's side and not the stored text.
\<close>

theorem empty_story_counterexample:
  "store_after (saveUserStory \<lparr>story = []\<rparr> \<lparr>configurable = u1_config, tool_config.store = Some InMemoryStore\<rparr>)
     = Some store_with_empty_grievance
   \<and> store_get store_with_empty_grievance [''stories''] ''u1_user'' = Inr (Some (Item \<lparr>story.content = []\<rparr>))
   \<and> outcome (getBothStories \<lparr>story = []\<rparr>
                 \<lparr>configurable = u1_config, tool_config.store = Some store_with_empty_grievance\<rparr>)
       = Inr (report ''No story shared yet'' ''No story shared yet'')
   \<and> report ''No story shared yet'' ''No story shared yet'' \<noteq> report [] ''No story shared yet''"
proof -
  have a: "store_after (saveUserStory \<lparr>story = []\<rparr> \<lparr>configurable = u1_config, tool_config.store = Some InMemoryStore\<rparr>)
     = Some store_with_empty_grievance"
    by (simp add: saveUserStory_def u1_uid Let_def store_put_def InMemoryStore_def store_with_empty_grievance_def)
  have b: "store_get store_with_empty_grievance [''stories''] ''u1_user'' = Inr (Some (Item \<lparr>story.content = []\<rparr>))"
    by (simp add: store_get_def store_with_empty_grievance_def InMemoryStore_def)
  have b': "store_get store_with_empty_grievance [''stories''] ''u1_wife'' = Inr None"
    by (simp add: store_get_def store_with_empty_grievance_def InMemoryStore_def)
  have c: "outcome (getBothStories \<lparr>story = []\<rparr>
                 \<lparr>configurable = u1_config, tool_config.store = Some store_with_empty_grievance\<rparr>)
       = Inr (report ''No story shared yet'' ''No story shared yet'')"
    by (simp add: getBothStories_outcome u1_uid b b' truthy_content_def)
  have d: "report ''No story shared yet'' ''No story shared yet'' \<noteq> report [] ''No story shared yet''"
    by (simp add: report_def)
  from a b c d show ?thesis by blast
qed

text \<open>
  Claim C5, amended. Given a store, \<^verbatim>\<open>get_both_stories\<close> never throws: it returns the
  report of the user's side first and the wife's side second. Each side is printed by the
  same rule, independently of the other: \<open>No story shared yet\<close> when no record is stored
  or the stored text is empty, and the stored text verbatim when it is not empty.
\<close>

theorem getBothStories_reports_both_sides:
  assumes "tool_config.store tc = Some st"
  shows "\<exists>us ws.
           outcome (getBothStories i tc) = Inr (report us ws)
         \<and> (store_get st [''stories''] (or_default (opt_chain (configurable tc) userId) ''default_user'' @ ''_user'')
               = Inr None
             \<longrightarrow> us = ''No story shared yet'')
         \<and> (store_get st [''stories''] (or_default (opt_chain (configurable tc) userId) ''default_user'' @ ''_user'')
               = Inr (Some (Item \<lparr>story.content = u\<rparr>))
             \<longrightarrow> us = (if u = [] then ''No story shared yet'' else u))
         \<and> (store_get st [''stories''] (or_default (opt_chain (configurable tc) userId) ''default_user'' @ ''_wife'')
               = Inr None
             \<longrightarrow> ws = ''No story shared yet'')
         \<and> (store_get st [''stories''] (or_default (opt_chain (configurable tc) userId) ''default_user'' @ ''_wife'')
               = Inr (Some (Item \<lparr>story.content = w\<rparr>))
             \<longrightarrow> ws = (if w = [] then ''No story shared yet'' else w))"
  unfolding getBothStories_outcome [OF assms]
  by (intro exI conjI impI, rule refl) (simp_all add: truthy_content_def)

text \<open>
  The end-to-end scenario: the advocate records a grievance, the opposing role-play
  records an account, and the combined read prints both; on the empty store it prints
  the two markers.
\<close>

theorem getBothStories_reports_both_sides_witness:
  "store_after
     (saveWifeStory \<lparr>story = ''I bought only what the house needed''\<rparr>
        \<lparr>configurable = u1_config,
         tool_config.store =
           store_after
             (saveUserStory \<lparr>story = ''She overspent on furniture''\<rparr>
                \<lparr>configurable = u1_config, tool_config.store = Some InMemoryStore\<rparr>)\<rparr>)
     = Some store_with_both_stories
   \<and> store_get store_with_both_stories [''stories''] ''u1_user''
       = Inr (Some (Item \<lparr>story.content = ''She overspent on furniture''\<rparr>))
   \<and> store_get store_with_both_stories [''stories''] ''u1_wife''
       = Inr (Some (Item \<lparr>story.content = ''I bought only what the house needed''\<rparr>))
   \<and> outcome (getBothStories \<lparr>story = []\<rparr>
                 \<lparr>configurable = u1_config, tool_config.store = Some store_with_both_stories\<rparr>)
       = Inr (report ''She overspent on furniture'' ''I bought only what the house needed'')
   \<and> store_get InMemoryStore [''stories''] ''u1_user'' = Inr None
   \<and> store_get InMemoryStore [''stories''] ''u1_wife'' = Inr None
   \<and> outcome (getBothStories \<lparr>story = []\<rparr> both_sides_absent_config)
       = Inr (report ''No story shared yet'' ''No story shared yet'')"
proof -
  have st: "tool_config.store \<lparr>configurable = u1_config, tool_config.store = Some store_with_both_stories\<rparr>
              = Some store_with_both_stories"
    by simp
  have st0: "tool_config.store both_sides_absent_config = Some InMemoryStore"
    by (simp add: both_sides_absent_config_def)
  have absent: "store_get InMemoryStore [''stories''] ''u1_user'' = Inr None"
    "store_get InMemoryStore [''stories''] ''u1_wife'' = Inr None"
    by (simp_all add: store_get_def InMemoryStore_def)
  from getBothStories_reports_both_sides [OF st, of "\<lparr>story = []\<rparr>" "''She overspent on furniture''"
      "''I bought only what the house needed''"]
  have full: "outcome (getBothStories \<lparr>story = []\<rparr>
                 \<lparr>configurable = u1_config, tool_config.store = Some store_with_both_stories\<rparr>)
       = Inr (report ''She overspent on furniture'' ''I bought only what the house needed'')"
    by (auto simp: u1_uid store_with_both_stories_gets)
  from getBothStories_reports_both_sides [OF st0, of "\<lparr>story = []\<rparr>"]
  have none: "outcome (getBothStories \<lparr>story = []\<rparr> both_sides_absent_config)
       = Inr (report ''No story shared yet'' ''No story shared yet'')"
    by (auto simp: both_sides_absent_config_def u1_uid absent)
  from both_stories_saved store_with_both_stories_gets absent full none show ?thesis by blast
qed

section \<open>Store faults\<close>

text \<open>
  Claim C6 as stated fails: when both reads of \<^verbatim>\<open>get_both_stories\<close> fault, the tool
  returns the report with \<open>No story shared yet\<close> twice and no error.
\<close>

theorem read_fault_counterexample:
  "store_get unavailable_store [''stories''] ''u1_user'' = Inl (StoreFault ''store unavailable'')
   \<and> store_get unavailable_store [''stories''] ''u1_wife'' = Inl (StoreFault ''store unavailable'')
   \<and> outcome (getBothStories \<lparr>story = []\<rparr>
                 \<lparr>configurable = u1_config, tool_config.store = Some unavailable_store\<rparr>)
       = Inr (report ''No story shared yet'' ''No story shared yet'')"
  by (simp add: getBothStories_outcome u1_uid store_get_def unavailable_store_def truthy_content_def)

text \<open>
  Claim C6, amended. A fault of the store's \<open>put\<close> during \<^verbatim>\<open>save_user_story\<close> or
  \<^verbatim>\<open>save_wife_story\<close> is the tool's error, unchanged, and the store is left as it was.
  A fault of either \<open>get\<close> during \<^verbatim>\<open>get_both_stories\<close> is caught: the tool returns
  its report, the faulting side is printed as \<open>No story shared yet\<close>, and a side whose
  \<open>get\<close> answered is printed from the answer as usual.
\<close>

theorem store_faults_surface_on_writes:
  assumes "tool_config.store tc = Some st"
  shows "(store_put st [''stories''] (or_default (opt_chain (configurable tc) userId) ''default_user'' @ ''_user'')
            \<lparr>story.content = story i\<rparr> = Inl err
          \<longrightarrow> outcome (saveUserStory i tc) = Inl err \<and> store_after (saveUserStory i tc) = Some st)
       \<and> (store_put st [''stories''] (or_default (opt_chain (configurable tc) userId) ''default_user'' @ ''_wife'')
            \<lparr>story.content = story i\<rparr> = Inl err
          \<longrightarrow> outcome (saveWifeStory i tc) = Inl err \<and> store_after (saveWifeStory i tc) = Some st)
       \<and> (\<exists>us ws.
             outcome (getBothStories i tc) = Inr (report us ws)
           \<and> (store_get st [''stories''] (or_default (opt_chain (configurable tc) userId) ''default_user'' @ ''_user'')
                 = Inl err1
               \<longrightarrow> us = ''No story shared yet'')
           \<and> (store_get st [''stories''] (or_default (opt_chain (configurable tc) userId) ''default_user'' @ ''_user'')
                 = Inr r1
               \<longrightarrow> us = (case truthy_content r1 of Some c \<Rightarrow> c | None \<Rightarrow> ''No story shared yet''))
           \<and> (store_get st [''stories''] (or_default (opt_chain (configurable tc) userId) ''default_user'' @ ''_wife'')
                 = Inl err2
               \<longrightarrow> ws = ''No story shared yet'')
           \<and> (store_get st [''stories''] (or_default (opt_chain (configurable tc) userId) ''default_user'' @ ''_wife'')
                 = Inr r2
               \<longrightarrow> ws = (case truthy_content r2 of Some c \<Rightarrow> c | None \<Rightarrow> ''No story shared yet'')))"
proof -
  have writes:
    "store_put st [''stories''] (or_default (opt_chain (configurable tc) userId) ''default_user'' @ ''_user'')
            \<lparr>story.content = story i\<rparr> = Inl err
          \<longrightarrow> outcome (saveUserStory i tc) = Inl err \<and> store_after (saveUserStory i tc) = Some st"
    "store_put st [''stories''] (or_default (opt_chain (configurable tc) userId) ''default_user'' @ ''_wife'')
            \<lparr>story.content = story i\<rparr> = Inl err
          \<longrightarrow> outcome (saveWifeStory i tc) = Inl err \<and> store_after (saveWifeStory i tc) = Some st"
    using assms by (simp_all add: saveUserStory_def saveWifeStory_def Let_def)
  have reads:
    "\<exists>us ws.
             outcome (getBothStories i tc) = Inr (report us ws)
           \<and> (store_get st [''stories''] (or_default (opt_chain (configurable tc) userId) ''default_user'' @ ''_user'')
                 = Inl err1
               \<longrightarrow> us = ''No story shared yet'')
           \<and> (store_get st [''stories''] (or_default (opt_chain (configurable tc) userId) ''default_user'' @ ''_user'')
                 = Inr r1
               \<longrightarrow> us = (case truthy_content r1 of Some c \<Rightarrow> c | None \<Rightarrow> ''No story shared yet''))
           \<and> (store_get st [''stories''] (or_default (opt_chain (configurable tc) userId) ''default_user'' @ ''_wife'')
                 = Inl err2
               \<longrightarrow> ws = ''No story shared yet'')
           \<and> (store_get st [''stories''] (or_default (opt_chain (configurable tc) userId) ''default_user'' @ ''_wife'')
                 = Inr r2
               \<longrightarrow> ws = (case truthy_content r2 of Some c \<Rightarrow> c | None \<Rightarrow> ''No story shared yet''))"
    unfolding getBothStories_outcome [OF assms]
    by (intro exI conjI impI, rule refl) (simp_all add: truthy_content_def)
  from writes reads show ?thesis by blast
qed

text \<open>
  The amended claim on the store that is down, for the writes, and on the store whose
  read of the user's story alone faults, for the combined read.
\<close>

theorem store_faults_surface_on_writes_witness:
  "store_put unavailable_store [''stories''] ''u1_user'' \<lparr>story.content = ''She overspent on furniture''\<rparr>
       = Inl (StoreFault ''store unavailable'')
   \<and> outcome (saveUserStory \<lparr>story = ''She overspent on furniture''\<rparr>
                 \<lparr>configurable = u1_config, tool_config.store = Some unavailable_store\<rparr>)
       = Inl (StoreFault ''store unavailable'')
   \<and> store_put unavailable_store [''stories''] ''u1_wife'' \<lparr>story.content = ''She overspent on furniture''\<rparr>
       = Inl (StoreFault ''store unavailable'')
   \<and> outcome (saveWifeStory \<lparr>story = ''She overspent on furniture''\<rparr>
                 \<lparr>configurable = u1_config, tool_config.store = Some unavailable_store\<rparr>)
       = Inl (StoreFault ''store unavailable'')
   \<and> store_get half_available_store [''stories''] ''u1_user'' = Inl (StoreFault ''store unavailable'')
   \<and> store_get half_available_store [''stories''] ''u1_wife''
       = Inr (Some (Item \<lparr>story.content = ''I bought only what the house needed''\<rparr>))
   \<and> outcome (getBothStories \<lparr>story = []\<rparr>
                 \<lparr>configurable = u1_config, tool_config.store = Some half_available_store\<rparr>)
       = Inr (report ''No story shared yet'' ''I bought only what the house needed'')"
proof -
  have st: "tool_config.store \<lparr>configurable = u1_config, tool_config.store = Some unavailable_store\<rparr>
              = Some unavailable_store"
    by simp
  have sth: "tool_config.store \<lparr>configurable = u1_config, tool_config.store = Some half_available_store\<rparr>
              = Some half_available_store"
    by simp
  have p: "store_put unavailable_store [''stories''] ''u1_user'' \<lparr>story.content = ''She overspent on furniture''\<rparr>
             = Inl (StoreFault ''store unavailable'')"
    "store_put unavailable_store [''stories''] ''u1_wife'' \<lparr>story.content = ''She overspent on furniture''\<rparr>
             = Inl (StoreFault ''store unavailable'')"
    by (simp_all add: store_put_def unavailable_store_def)
  have g: "store_get half_available_store [''stories''] ''u1_user'' = Inl (StoreFault ''store unavailable'')"
    "store_get half_available_store [''stories''] ''u1_wife''
       = Inr (Some (Item \<lparr>story.content = ''I bought only what the house needed''\<rparr>))"
    by (simp_all add: store_get_def half_available_store_def)
  from store_faults_surface_on_writes [OF st, of "\<lparr>story = ''She overspent on furniture''\<rparr>"
      "StoreFault ''store unavailable''"] p
  have w: "outcome (saveUserStory \<lparr>story = ''She overspent on furniture''\<rparr>
                 \<lparr>configurable = u1_config, tool_config.store = Some unavailable_store\<rparr>)
       = Inl (StoreFault ''store unavailable'')"
    "outcome (saveWifeStory \<lparr>story = ''She overspent on furniture''\<rparr>
                 \<lparr>configurable = u1_config, tool_config.store = Some unavailable_store\<rparr>)
       = Inl (StoreFault ''store unavailable'')"
    by (simp_all add: u1_uid)
  from store_faults_surface_on_writes [OF sth, of "\<lparr>story = []\<rparr>" _ "StoreFault ''store unavailable''" _ _
      "Some (Item \<lparr>story.content = ''I bought only what the house needed''\<rparr>)"]
  have r: "outcome (getBothStories \<lparr>story = []\<rparr>
                 \<lparr>configurable = u1_config, tool_config.store = Some half_available_store\<rparr>)
       = Inr (report ''No story shared yet'' ''I bought only what the house needed'')"
    by (auto simp: u1_uid g truthy_content_def)
  from p w g r show ?thesis by blast
qed

section \<open>The instruction of a turn\<close>

text \<open>
  Claim C7. For each of the three modes, every history and every supplied (non-empty)
  \<open>userId\<close> and \<open>sessionId\<close>, the prompt function returns one system message, whose text
  is the mode's template followed by the trailer naming the mode, the user and the
  session, and after it the whole history, in order and unchanged. An absent or empty
  identifier is replaced by its default.
\<close>

theorem getPromptFunction_composes:
  assumes "(k, m) \<in> set MODES_entries"
      and "opt_chain (configurable cfg) userId = Some u" and "u \<noteq> []"
      and "opt_chain (configurable cfg) sessionId = Some s" and "s \<noteq> []"
  shows "\<exists>template. systemMessages m = Some template
           \<and> getPromptFunction m st cfg =
               Message ''system''
                 (template @ ''\<newline>\<newline>Session Info: You are in '' @ m @ '' mode for user '' @ u
                    @ '' in session '' @ s @ ''.'')
               # graph_state.messages st"
proof -
  from assms(1) have "m = MODES_USER \<or> m = MODES_WIFE \<or> m = MODES_SOLOMON"
    by (auto simp: MODES_entries_def MODES_USER_def MODES_WIFE_def MODES_SOLOMON_def)
  then show ?thesis
    using assms(2-5) templates_nonempty
    by (auto simp: getPromptFunction_def systemMessages_simps or_default_def Let_def)
qed

text \<open>The instruction of an advocate's turn with a history of three messages.\<close>

theorem getPromptFunction_composes_witness:
  "(''USER'', ''my_point_of_view'') \<in> set MODES_entries
   \<and> opt_chain (configurable test_config) userId = Some ''test_user''
   \<and> opt_chain (configurable test_config) sessionId = Some ''test_session''
   \<and> getPromptFunction ''my_point_of_view'' \<lparr>graph_state.messages = history_fixture\<rparr> test_config =
       Message ''system''
         (systemMessage_USER
            @ ''\<newline>\<newline>Session Info: You are in my_point_of_view mode for user test_user in session test_session.'')
       # history_fixture"
proof -
  have h1: "(''USER'', ''my_point_of_view'') \<in> set MODES_entries"
    by (simp add: MODES_entries_def)
  have h2: "opt_chain (configurable test_config) userId = Some ''test_user''"
    by (simp add: test_config_def opt_chain_def)
  have h3: "opt_chain (configurable test_config) sessionId = Some ''test_session''"
    by (simp add: test_config_def opt_chain_def)
  have t: "systemMessages ''my_point_of_view'' = Some systemMessage_USER"
    using systemMessages_simps(1) by (simp add: MODES_USER_def)
  from getPromptFunction_composes [OF h1 h2 _ h3, of "\<lparr>graph_state.messages = history_fixture\<rparr>"] t
  have "getPromptFunction ''my_point_of_view'' \<lparr>graph_state.messages = history_fixture\<rparr> test_config =
       Message ''system''
         (systemMessage_USER
            @ ''\<newline>\<newline>Session Info: You are in my_point_of_view mode for user test_user in session test_session.'')
       # history_fixture"
    by simp
  with h1 h2 h3 show ?thesis by blast
qed

section \<open>Overwriting a story\<close>

text \<open>
  Claim C8. Saving the same story twice leaves the store as saving it once does, for
  both save tools; a \<open>put\<close> repeated on its own result changes nothing; and after two
  \<open>put\<close>s to one key the store holds the second value and is the store that the second
  \<open>put\<close> alone would have produced.
\<close>

theorem story_write_idempotent:
  "store_after (saveUserStory i (tc\<lparr>tool_config.store := store_after (saveUserStory i tc)\<rparr>))
     = store_after (saveUserStory i tc)
   \<and> store_after (saveWifeStory i (tc\<lparr>tool_config.store := store_after (saveWifeStory i tc)\<rparr>))
     = store_after (saveWifeStory i tc)
   \<and> (store_put st ns k v = Inr st1 \<longrightarrow> store_put st1 ns k v = Inr st1)
   \<and> (store_put st ns k v = Inr st1 \<and> store_put st1 ns k w = Inr st2
        \<longrightarrow> items st2 (ns, k) = Some (Item w) \<and> store_put st ns k w = Inr st2)"
  using saveUserStory_again saveWifeStory_again store_put_again store_put_overwrites by blast

text \<open>Two writes of the advocate's key on the in-memory store.\<close>

theorem story_write_idempotent_witness:
  "store_put InMemoryStore [''stories''] ''u1_user'' \<lparr>story.content = []\<rparr> = Inr store_with_empty_grievance
   \<and> store_put store_with_empty_grievance [''stories''] ''u1_user'' \<lparr>story.content = []\<rparr>
       = Inr store_with_empty_grievance
   \<and> store_put store_with_empty_grievance [''stories''] ''u1_user''
        \<lparr>story.content = ''She overspent on furniture''\<rparr>
       = Inr (InMemoryStore
               \<lparr>items := [([''stories''], ''u1_user'') \<mapsto> Item \<lparr>story.content = ''She overspent on furniture''\<rparr>]\<rparr>)
   \<and> store_put InMemoryStore [''stories''] ''u1_user'' \<lparr>story.content = ''She overspent on furniture''\<rparr>
       = Inr (InMemoryStore
               \<lparr>items := [([''stories''], ''u1_user'') \<mapsto> Item \<lparr>story.content = ''She overspent on furniture''\<rparr>]\<rparr>)"
proof -
  have a: "store_put InMemoryStore [''stories''] ''u1_user'' \<lparr>story.content = []\<rparr> = Inr store_with_empty_grievance"
    by (simp add: store_put_def InMemoryStore_def store_with_empty_grievance_def)
  have b: "store_put store_with_empty_grievance [''stories''] ''u1_user''
        \<lparr>story.content = ''She overspent on furniture''\<rparr>
       = Inr (InMemoryStore
               \<lparr>items := [([''stories''], ''u1_user'') \<mapsto> Item \<lparr>story.content = ''She overspent on furniture''\<rparr>]\<rparr>)"
    by (simp add: store_put_def InMemoryStore_def store_with_empty_grievance_def)
  note th = story_write_idempotent [of _ _ InMemoryStore "[''stories'']" "''u1_user''" "\<lparr>story.content = []\<rparr>"
      store_with_empty_grievance "\<lparr>story.content = ''She overspent on furniture''\<rparr>"
      "InMemoryStore
         \<lparr>items := [([''stories''], ''u1_user'') \<mapsto> Item \<lparr>story.content = ''She overspent on furniture''\<rparr>]\<rparr>"]
  from th a b show ?thesis by blast
qed

section \<open>Caller-supplied thread identifiers\<close>

text \<open>
  Claim C9. In \<^verbatim>\<open>invoke\<close> the caller's \<open>configurable.thread_id\<close>, when present, is the
  thread identifier of the merged configuration handed to the agent, whatever the current
  mode and the session are; only when the caller passes none is the identifier the derived
  key \<open>currentMode_sessionId\<close>. So the separation of threads by mode and session can hold
  only for callers that pass no \<open>thread_id\<close>.
\<close>

theorem caller_thread_id_takes_precedence:
  assumes "invoke toUpperCase inp cfg e plan c0 = (Inr t, c')"
  shows "opt_chain (configurable (run_config t)) thread_id =
           (case opt_chain (configurable cfg) thread_id of
              Some k \<Rightarrow> Some k
            | None \<Rightarrow>
                Some (currentMode c0 @ ''_''
                        @ or_default (opt_chain (configurable cfg) sessionId) ''default''))"
proof -
  from invoke_Inr [OF assms] obtain c where
    "currentMode c = currentMode c0" and "run_config t = mergedConfig c cfg"
    by blast
  then have "run_config t = mergedConfig c0 cfg"
    using mergedConfig_currentMode [of c c0 cfg] by simp
  then show ?thesis using merged_thread_id [of c0 cfg] by simp
qed

text \<open>
  With the configuration of the deployment guide a turn of the opposing role-play runs
  under the caller's key, which names neither the persona nor the current mode.
\<close>

theorem caller_thread_id_takes_precedence_witness:
  "pinned_turn = (Inr (projr (fst pinned_turn)), snd pinned_turn)
   \<and> target (projr (fst pinned_turn)) = ''her_point_of_view''
   \<and> currentMode new_counselor = ''king_solomon_wise''
   \<and> opt_chain (configurable (run_config (projr (fst pinned_turn)))) thread_id
       = Some ''user123_session456''"
proof -
  have h: "invoke toUpperCase_ascii (api_input ''WIFE'' ''Continue our conversation'') deployment_config test_env []
             new_counselor = (Inr (projr (fst pinned_turn)), snd pinned_turn)"
    using Inr_turn [OF pinned_turn_ok] by (simp add: pinned_turn_def)
  from invoke_Inr [OF h] have tg: "target (projr (fst pinned_turn)) = ''her_point_of_view''"
    by (auto simp: select_mode_api_input MODES_WIFE_def)
  from caller_thread_id_takes_precedence [OF h]
  have "opt_chain (configurable (run_config (projr (fst pinned_turn)))) thread_id
          = Some ''user123_session456''"
    by (simp add: deployment_config_def opt_chain_def)
  with tg Inr_turn [OF pinned_turn_ok] show ?thesis
    by (simp add: new_counselor_def MODES_SOLOMON_def)
qed

section \<open>Switching modes\<close>

text \<open>
  Claim C10. \<^verbatim>\<open>setMode(m)\<close> returns true and sets the current mode to the mode named
  by \<open>m\<close> exactly when \<open>m\<close> in upper case is \<open>USER\<close>, \<open>WIFE\<close> or \<open>SOLOMON\<close>; for every
  other string it returns false and leaves the counselor as it was. It is total on
  strings: no string makes it throw. This holds for every upper-casing function, so for
  the Unicode one of the source.
\<close>

theorem setMode_exact:
  "setMode toUpperCase m c =
     (if toUpperCase m = ''USER'' then (True, c\<lparr>currentMode := ''my_point_of_view''\<rparr>)
      else if toUpperCase m = ''WIFE'' then (True, c\<lparr>currentMode := ''her_point_of_view''\<rparr>)
      else if toUpperCase m = ''SOLOMON'' then (True, c\<lparr>currentMode := ''king_solomon_wise''\<rparr>)
      else (False, c))"
  by (simp add: setMode_def MODES_simps)

theorem setMode_exact_witness:
  "setMode toUpperCase_ascii ''Wife'' new_counselor = (True, new_counselor\<lparr>currentMode := ''her_point_of_view''\<rparr>)
   \<and> setMode toUpperCase_ascii ''judge'' new_counselor = (False, new_counselor)"
  using setMode_exact [of toUpperCase_ascii "''Wife''" new_counselor]
    setMode_exact [of toUpperCase_ascii "''judge''" new_counselor]
  by (simp add: toUpperCase_ascii_Wife toUpperCase_ascii_judge)

end
